theory Spec2Isabelle
  imports Main "HOL-Library.Sublist"
begin

section \<open>College finder state: the colleges reducer\<close>

text \<open>
  \<^verbatim>\<open>college_agent_schema.py\<close>: a \<open>College\<close> is a pydantic model; optional
  fields are \<open>option\<close>s.
\<close>

record College =
  name :: string
  location :: string
  description :: string
  acceptance_rate :: "string option"
  tuition :: "string option"
  enrollment :: "string option"
  dorm_percentage :: "string option"
  sat_scores :: "string option"
  programs :: "string list option"
  url :: "string option"
  has_missing_fields :: bool

text \<open>
  The inner \<open>for i, existing_college in enumerate(result)\<close> loop of
  \<open>colleges_reducer\<close>. The first argument is what \<open>enumerate\<close> still has to
  yield, \<open>i\<close> is the index of its head; the loop leaves at the first match
  (\<open>break\<close>) right after the assignment \<open>result[i] = new_college\<close>, so the list it
  iterates is never read after being written. The result is the list and the
  flag \<open>found\<close>.
\<close>

fun find_and_replace ::
  "College list \<Rightarrow> nat \<Rightarrow> College list \<Rightarrow> College \<Rightarrow> College list \<times> bool" where
  "find_and_replace [] i result new_college = (result, False)"
| "find_and_replace (existing_college # rest) i result new_college =
     (if name existing_college = name new_college
      then (result[i := new_college], True)
      else find_and_replace rest (Suc i) result new_college)"

text \<open>One round of the outer loop: replace, or append when nothing was found.\<close>

definition merge_college :: "College list \<Rightarrow> College \<Rightarrow> College list" where
  "merge_college result new_college =
     (case find_and_replace result 0 result new_college of
        (result', found) \<Rightarrow> if \<not> found then result' @ [new_college] else result')"

fun for_new_college :: "College list \<Rightarrow> College list \<Rightarrow> College list" where
  "for_new_college result [] = result"
| "for_new_college result (new_college # update) =
     for_new_college (merge_college result new_college) update"

definition colleges_reducer :: "College list \<Rightarrow> College list option \<Rightarrow> College list" where
  "colleges_reducer current update =
     (case update of
        None \<Rightarrow> current
      | Some upd \<Rightarrow> for_new_college current upd)"

text \<open>
  The reducer as the specification words it, for comparison with the code:
  a college replaces the first college of the same name, and is appended at
  the end when there is none; the update is processed in order.
\<close>

fun spec_replace_or_append :: "College \<Rightarrow> College list \<Rightarrow> College list" where
  "spec_replace_or_append c [] = [c]"
| "spec_replace_or_append c (x # xs) =
     (if name x = name c then c # xs else x # spec_replace_or_append c xs)"

definition spec_merge_by_name :: "College list \<Rightarrow> College list \<Rightarrow> College list" where
  "spec_merge_by_name current upd = foldl (\<lambda>acc c. spec_replace_or_append c acc) current upd"


section \<open>College finder state: the annotated fields\<close>

text \<open>
  \<open>CollegeFinderState\<close> is a \<open>TypedDict\<close>; a field written
  \<open>Annotated[List[X], r]\<close> names the reducer \<open>r\<close> that merges an update into the
  current value, a plain field names none. The table lists the fields in the
  order of the class body.
\<close>

datatype reducer = operator_add_reducer | colleges_reducer_reducer

definition CollegeFinderState_fields :: "(string \<times> reducer option) list" where
  "CollegeFinderState_fields =
     [(''major'', None),
      (''location_preference'', None),
      (''max_tuition'', None),
      (''min_acceptance_rate'', None),
      (''max_colleges'', None),
      (''search_query'', None),
      (''sat_score'', None),
      (''search_results'', Some operator_add_reducer),
      (''colleges'', Some colleges_reducer_reducer),
      (''recommendations'', Some operator_add_reducer),
      (''messages'', Some operator_add_reducer),
      (''data_gathering_attempts'', None),
      (''status_updates'', Some operator_add_reducer)]"

text \<open>
  \<open>operator_add_reducer\<close> stands for Python's \<open>operator.add\<close>, which on two
  lists is \<open>a + b\<close>, a new list; \<open>colleges_reducer_reducer\<close> stands for
  \<open>colleges_reducer\<close> above.
\<close>

definition operator_add :: "'a list \<Rightarrow> 'a list \<Rightarrow> 'a list" where
  "operator_add a b = a @ b"

section \<open>Python values shared by the agents\<close>

text \<open>
  Exceptions are values. Every constructor is a subclass of Python's
  \<open>Exception\<close>, which is what the handlers of this repository catch
  (\<open>except Exception as e\<close>); \<open>Exception\<close> itself carries the message of any
  other library error.
\<close>

datatype exception =
    KeyError string
  | AttributeError string
  | TypeError string
  | ValueError string
  | Exception string

text \<open>\<open>str(e)\<close>: the message; for a \<open>KeyError\<close> the quoted key.\<close>

fun str_exception :: "exception \<Rightarrow> string" where
  "str_exception (KeyError k) = [CHR 0x27] @ k @ [CHR 0x27]"
| "str_exception (AttributeError m) = m"
| "str_exception (TypeError m) = m"
| "str_exception (ValueError m) = m"
| "str_exception (Exception m) = m"

text \<open>\<open>d[key]\<close> on a dictionary whose entry is \<open>field\<close> (\<open>None\<close> when the key is absent).\<close>

definition getitem :: "string \<Rightarrow> 'a option \<Rightarrow> exception + 'a" where
  "getitem k field = (case field of None \<Rightarrow> Inl (KeyError k) | Some v \<Rightarrow> Inr v)"

text \<open>
  The slice \<open>xs[:n]\<close>: the first \<open>n\<close> elements when \<open>n\<close> is not negative, all but
  the last \<open>-n\<close> elements when it is.
\<close>

definition slice_upto :: "'a list \<Rightarrow> int \<Rightarrow> 'a list" where
  "slice_upto xs n =
     (if 0 \<le> n then take (nat n) xs else take (length xs - nat (- n)) xs)"

section \<open>The marketing agent: nodes\<close>

text \<open>
  \<^verbatim>\<open>marketing_agent.py\<close>. The schema types requested from the model are the
  classes declared at the top of the module.
\<close>

datatype schema =
    PersonaList
  | CompetitorList
  | SiteInfo
  | MarketingStrategiesList
  | KeywordList
  | SubredditList

text \<open>
  A value returned by the model. \<open>Persona\<close> and \<open>Competitor\<close> are declared in
  \<^verbatim>\<open>marketing_schema.py\<close>, which is not among the sources; they are the type
  parameters \<open>'p\<close> and \<open>'c\<close>. \<open>Message\<close> is what a model without a requested
  schema answers.
\<close>

datatype ('p, 'c) structured =
    PersonaList_value "'p list"
  | CompetitorList_value "'c list"
  | SiteInfo_value string string "string list" string
  | MarketingStrategiesList_value "string list"
  | KeywordList_value "string list"
  | SubredditList_value "string list"
  | Message string

text \<open>
  Attribute access on such a value: \<open>response.personas\<close> and the like raise
  \<open>AttributeError\<close> on a value of another class.
\<close>

fun attr_personas :: "('p, 'c) structured \<Rightarrow> exception + 'p list" where
  "attr_personas (PersonaList_value ps) = Inr ps"
| "attr_personas _ = Inl (AttributeError ''personas'')"

fun attr_competitors :: "('p, 'c) structured \<Rightarrow> exception + 'c list" where
  "attr_competitors (CompetitorList_value cs) = Inr cs"
| "attr_competitors _ = Inl (AttributeError ''competitors'')"

fun attr_strategies :: "('p, 'c) structured \<Rightarrow> exception + string list" where
  "attr_strategies (MarketingStrategiesList_value xs) = Inr xs"
| "attr_strategies _ = Inl (AttributeError ''strategies'')"

fun attr_keywords :: "('p, 'c) structured \<Rightarrow> exception + string list" where
  "attr_keywords (KeywordList_value xs) = Inr xs"
| "attr_keywords _ = Inl (AttributeError ''keywords'')"

fun attr_subreddits :: "('p, 'c) structured \<Rightarrow> exception + string list" where
  "attr_subreddits (SubredditList_value xs) = Inr xs"
| "attr_subreddits _ = Inl (AttributeError ''subreddits'')"

text \<open>
  \<open>SearchResult\<close> (\<^verbatim>\<open>agents/tools/searchweb.py\<close>, not among the sources) is read
  through its attribute \<open>link\<close> only, and the document \<open>scrape_web\<close> returns
  through \<open>page_content\<close> only.
\<close>

record SearchResult =
  link :: string

record Document =
  page_content :: string

text \<open>
  The graph state. \<open>MarketingPlanState\<close> is declared in
  \<^verbatim>\<open>marketing_schema.py\<close>; its fields here are the keys the nodes read and
  write. A field is \<open>None\<close> when the dictionary has no such key, so that
  \<open>state['key']\<close> is \<open>getitem\<close>. The same record is the partial dictionary a
  node returns. The type of \<open>max_personas\<close> is the parameter \<open>'m\<close>: the node
  converts it with \<open>int(...)\<close>. (\<open>keywords\<close> is a reserved word of the
  theory language, hence \<open>keywords'\<close>.)
\<close>

record ('m, 'p, 'c) MarketingPlanState =
  appUrl :: "string option"
  appName :: "string option"
  appDescription :: "string option"
  keyfeatures :: "string list option"
  value_proposition :: "string option"
  max_personas :: "'m option"
  competitor_hint :: "string option"
  personas :: "'p list option"
  keywords' :: "string list option"
  search_results :: "SearchResult list option"
  competitors :: "'c list option"
  marketing_suggestions :: "string list option"
  subreddits :: "string list option"
  human_feedback :: "string option"

definition empty_dict :: "('m, 'p, 'c) MarketingPlanState" where
  "empty_dict =
     \<lparr>appUrl = None, appName = None, appDescription = None, keyfeatures = None,
      value_proposition = None, max_personas = None, competitor_hint = None,
      personas = None, keywords' = None, search_results = None, competitors = None,
      marketing_suggestions = None, subreddits = None, human_feedback = None\<rparr>"

text \<open>
  A prompt is an f-string: the template (one constructor per f-string of the
  module) and the values interpolated into it, in the order the template names
  them for the first time.
\<close>

datatype ('m, 'p, 'c) prompt =
    create_personas_prompt 'm string string "string list" string
  | extract_keywords_prompt string string "'p list"
  | page_competitors_prompt string
  | relevant_competitors_prompt string string "'c list"
  | marketing_suggestions_prompt string string "string list" string "'c list"
  | subreddits_prompt string string "string list" string "'c list"

subsection \<open>Effects\<close>

text \<open>
  The nodes talk to a hosted model and to the web, and print. The world they
  run in is passed explicitly: \<open>external\<close> is the state of everything outside
  the program (two calls with the same arguments may answer differently),
  \<open>llm_calls\<close> records each request sent to the model with the schema it
  asked for (\<open>None\<close> for a request without one), and \<open>stdout\<close> the printed
  lines. A computation returns its result or the exception it raised, and the
  world after it.
\<close>

record ('w, 'q) world =
  external :: 'w
  llm_calls :: "(schema option \<times> 'q) list"
  stdout :: "string list"

type_synonym ('a, 'w, 'q) io = "('w, 'q) world \<Rightarrow> (exception + 'a) \<times> ('w, 'q) world"

definition io_return :: "'a \<Rightarrow> ('a, 'w, 'q) io" where
  "io_return x \<sigma> = (Inr x, \<sigma>)"

definition io_lift :: "exception + 'a \<Rightarrow> ('a, 'w, 'q) io" where
  "io_lift r \<sigma> = (r, \<sigma>)"

definition io_bind :: "('a, 'w, 'q) io \<Rightarrow> ('a \<Rightarrow> ('b, 'w, 'q) io) \<Rightarrow> ('b, 'w, 'q) io" where
  "io_bind m f \<sigma> =
     (case m \<sigma> of
        (Inl e, \<sigma>') \<Rightarrow> (Inl e, \<sigma>')
      | (Inr x, \<sigma>') \<Rightarrow> f x \<sigma>')"

definition print :: "string \<Rightarrow> ('w, 'q) world \<Rightarrow> ('w, 'q) world" where
  "print line \<sigma> = \<sigma>\<lparr>stdout := stdout \<sigma> @ [line]\<rparr>"

text \<open>
  The model \<open>get_llm()\<close> returns is a parameter: given the outside world, the
  requested schema and the prompt, it answers or raises.
  \<open>llm.with_structured_output(S).invoke(prompt)\<close> is \<open>invoke\<close> with \<open>Some S\<close>.
\<close>

type_synonym ('w, 'm, 'p, 'c) llm =
  "'w \<Rightarrow> schema option \<Rightarrow> ('m, 'p, 'c) prompt \<Rightarrow> (exception + ('p, 'c) structured) \<times> 'w"

definition invoke ::
  "('w, 'm, 'p, 'c) llm \<Rightarrow> schema option \<Rightarrow> ('m, 'p, 'c) prompt \<Rightarrow>
   (('p, 'c) structured, 'w, ('m, 'p, 'c) prompt) io" where
  "invoke llm s p \<sigma> =
     (case llm (external \<sigma>) s p of
        (r, w) \<Rightarrow> (r, \<sigma>\<lparr>external := w, llm_calls := llm_calls \<sigma> @ [(s, p)]\<rparr>))"

definition with_structured_output ::
  "('w, 'm, 'p, 'c) llm \<Rightarrow> schema \<Rightarrow> ('m, 'p, 'c) prompt \<Rightarrow>
   (('p, 'c) structured, 'w, ('m, 'p, 'c) prompt) io" where
  "with_structured_output llm S = invoke llm (Some S)"

text \<open>\<open>scrape_web\<close> (\<^verbatim>\<open>agents/tools/searchweb.py\<close>) is a parameter as well.\<close>

type_synonym 'w scraper = "'w \<Rightarrow> string \<Rightarrow> (exception + Document) \<times> 'w"

definition scrape_web :: "'w scraper \<Rightarrow> string \<Rightarrow> (Document, 'w, 'q) io" where
  "scrape_web scraper page_url \<sigma> =
     (case scraper (external \<sigma>) page_url of (r, w) \<Rightarrow> (r, \<sigma>\<lparr>external := w\<rparr>))"

subsection \<open>The nodes that call the model\<close>

text \<open>
  \<open>create_personas\<close>. \<open>py_int\<close> is Python's \<open>int(...)\<close> on the type of
  \<open>max_personas\<close>.
\<close>

definition create_personas ::
  "('w, 'm, 'p, 'c) llm \<Rightarrow> ('m \<Rightarrow> exception + int) \<Rightarrow> ('m, 'p, 'c) MarketingPlanState \<Rightarrow>
   (('m, 'p, 'c) MarketingPlanState, 'w, ('m, 'p, 'c) prompt) io" where
  "create_personas llm py_int state =
     io_bind (io_lift (getitem ''max_personas'' (max_personas state))) (\<lambda>mp.
     io_bind (io_lift (getitem ''appName'' (appName state))) (\<lambda>an.
     io_bind (io_lift (getitem ''appDescription'' (appDescription state))) (\<lambda>ad.
     io_bind (io_lift (getitem ''keyfeatures'' (keyfeatures state))) (\<lambda>kf.
     io_bind (io_lift (getitem ''value_proposition'' (value_proposition state))) (\<lambda>vp.
     io_bind (with_structured_output llm PersonaList (create_personas_prompt mp an ad kf vp))
       (\<lambda>response.
     io_bind (io_lift (py_int mp)) (\<lambda>n.
     io_bind (io_lift (attr_personas response)) (\<lambda>ps.
     io_return (empty_dict\<lparr>personas := Some (slice_upto ps n)\<rparr>)))))))))"

definition extract_keywords ::
  "('w, 'm, 'p, 'c) llm \<Rightarrow> ('m, 'p, 'c) MarketingPlanState \<Rightarrow>
   (('m, 'p, 'c) MarketingPlanState, 'w, ('m, 'p, 'c) prompt) io" where
  "extract_keywords llm state =
     io_bind (io_lift (getitem ''appName'' (appName state))) (\<lambda>an.
     io_bind (io_lift (getitem ''value_proposition'' (value_proposition state))) (\<lambda>vp.
     io_bind (io_lift (getitem ''personas'' (personas state))) (\<lambda>ps.
     io_bind (with_structured_output llm KeywordList (extract_keywords_prompt an vp ps))
       (\<lambda>response.
     io_bind (io_lift (attr_keywords response)) (\<lambda>ks.
     io_return (empty_dict\<lparr>keywords' := Some ks\<rparr>))))))"

text \<open>
  \<open>finalize_competitors\<close>. \<open>process_link\<close> is the body of the \<open>try\<close>: scrape
  the page, ask the model for the competitors on it, and hand back the list
  that \<open>results.extend\<close> appends.
\<close>

definition process_link ::
  "('w, 'm, 'p, 'c) llm \<Rightarrow> 'w scraper \<Rightarrow> SearchResult \<Rightarrow>
   ('c list, 'w, ('m, 'p, 'c) prompt) io" where
  "process_link llm scraper search_result =
     io_bind (scrape_web scraper (link search_result)) (\<lambda>doc.
     io_bind (with_structured_output llm CompetitorList
                (page_competitors_prompt (page_content doc))) (\<lambda>competitors.
     io_lift (attr_competitors competitors)))"

text \<open>
  The \<open>for search_result in state["search_results"]\<close> loop with its
  \<open>try\<close>/\<open>except Exception as e\<close>: the handler prints and goes on.
\<close>

fun for_search_results ::
  "('w, 'm, 'p, 'c) llm \<Rightarrow> 'w scraper \<Rightarrow> SearchResult list \<Rightarrow> 'c list \<Rightarrow>
   ('w, ('m, 'p, 'c) prompt) world \<Rightarrow> 'c list \<times> ('w, ('m, 'p, 'c) prompt) world" where
  "for_search_results llm scraper [] results \<sigma> = (results, \<sigma>)"
| "for_search_results llm scraper (search_result # rest) results \<sigma> =
     (case process_link llm scraper search_result \<sigma> of
        (Inr cs, \<sigma>') \<Rightarrow> for_search_results llm scraper rest (results @ cs) \<sigma>'
      | (Inl e, \<sigma>') \<Rightarrow>
          for_search_results llm scraper rest results
            (print (''Error processing '' @ link search_result @ '': '' @ str_exception e) \<sigma>'))"

definition finalize_competitors ::
  "('w, 'm, 'p, 'c) llm \<Rightarrow> 'w scraper \<Rightarrow> ('m, 'p, 'c) MarketingPlanState \<Rightarrow>
   (('m, 'p, 'c) MarketingPlanState, 'w, ('m, 'p, 'c) prompt) io" where
  "finalize_competitors llm scraper state =
     io_bind (io_lift (getitem ''search_results'' (search_results state))) (\<lambda>srs.
     io_bind (\<lambda>\<sigma>. case for_search_results llm scraper srs [] \<sigma> of
                      (results, \<sigma>') \<Rightarrow> (Inr results, \<sigma>')) (\<lambda>results.
     io_bind (io_lift (getitem ''appName'' (appName state))) (\<lambda>an.
     io_bind (io_lift (getitem ''appDescription'' (appDescription state))) (\<lambda>ad.
     io_bind (with_structured_output llm CompetitorList
                (relevant_competitors_prompt an ad results)) (\<lambda>response.
     io_bind (io_lift (attr_competitors response)) (\<lambda>cs.
     io_return (empty_dict\<lparr>competitors := Some cs\<rparr>)))))))"

definition get_marketing_suggestions ::
  "('w, 'm, 'p, 'c) llm \<Rightarrow> ('m, 'p, 'c) MarketingPlanState \<Rightarrow>
   (('m, 'p, 'c) MarketingPlanState, 'w, ('m, 'p, 'c) prompt) io" where
  "get_marketing_suggestions llm state =
     io_bind (io_lift (getitem ''appName'' (appName state))) (\<lambda>an.
     io_bind (io_lift (getitem ''appDescription'' (appDescription state))) (\<lambda>ad.
     io_bind (io_lift (getitem ''keyfeatures'' (keyfeatures state))) (\<lambda>kf.
     io_bind (io_lift (getitem ''value_proposition'' (value_proposition state))) (\<lambda>vp.
     io_bind (io_lift (getitem ''competitors'' (competitors state))) (\<lambda>cs.
     io_bind (with_structured_output llm MarketingStrategiesList
                (marketing_suggestions_prompt an ad kf vp cs)) (\<lambda>response.
     io_bind (io_lift (attr_strategies response)) (\<lambda>xs.
     io_return (empty_dict\<lparr>marketing_suggestions := Some xs\<rparr>))))))))"

definition get_subreddits ::
  "('w, 'm, 'p, 'c) llm \<Rightarrow> ('m, 'p, 'c) MarketingPlanState \<Rightarrow>
   (('m, 'p, 'c) MarketingPlanState, 'w, ('m, 'p, 'c) prompt) io" where
  "get_subreddits llm state =
     io_bind (io_lift (getitem ''appName'' (appName state))) (\<lambda>an.
     io_bind (io_lift (getitem ''appDescription'' (appDescription state))) (\<lambda>ad.
     io_bind (io_lift (getitem ''keyfeatures'' (keyfeatures state))) (\<lambda>kf.
     io_bind (io_lift (getitem ''value_proposition'' (value_proposition state))) (\<lambda>vp.
     io_bind (io_lift (getitem ''competitors'' (competitors state))) (\<lambda>cs.
     io_bind (with_structured_output llm SubredditList
                (subreddits_prompt an ad kf vp cs)) (\<lambda>response.
     io_bind (io_lift (attr_subreddits response)) (\<lambda>xs.
     io_return (empty_dict\<lparr>subreddits := Some xs\<rparr>))))))))"


subsection \<open>Observations on a run of a node\<close>

text \<open>
  Two readings of a run, used to state what the nodes do. \<open>link_outcomes\<close> is
  what the body of the \<open>try\<close> in \<open>finalize_competitors\<close> produced for each search
  result, in order, each in the world the loop had reached by then: the
  competitors it handed back, or the exception it raised.
  \<open>requested_schemas m \<sigma>\<close> is the schema of each request that the computation
  \<open>m\<close>, started in \<open>\<sigma>\<close>, sent to the model.
\<close>

fun link_outcomes ::
  "('w, 'm, 'p, 'c) llm \<Rightarrow> 'w scraper \<Rightarrow> SearchResult list \<Rightarrow>
   ('w, ('m, 'p, 'c) prompt) world \<Rightarrow> (exception + 'c list) list" where
  "link_outcomes llm scraper [] \<sigma> = []"
| "link_outcomes llm scraper (search_result # rest) \<sigma> =
     (case process_link llm scraper search_result \<sigma> of
        (Inr cs, \<sigma>') \<Rightarrow> Inr cs # link_outcomes llm scraper rest \<sigma>'
      | (Inl e, \<sigma>') \<Rightarrow>
          Inl e # link_outcomes llm scraper rest
            (print (''Error processing '' @ link search_result @ '': '' @ str_exception e) \<sigma>'))"

definition gathered :: "(exception + 'c list) list \<Rightarrow> 'c list" where
  "gathered outcomes = concat (map (\<lambda>r. case r of Inr cs \<Rightarrow> cs | Inl e \<Rightarrow> []) outcomes)"

definition error_lines :: "SearchResult list \<Rightarrow> (exception + 'c list) list \<Rightarrow> string list" where
  "error_lines srs outcomes =
     concat (map (\<lambda>(sr, r). case r of
                     Inl e \<Rightarrow> [''Error processing '' @ link sr @ '': '' @ str_exception e]
                   | Inr cs \<Rightarrow> [])
               (zip srs outcomes))"

definition requested_schemas :: "('a, 'w, 'q) io \<Rightarrow> ('w, 'q) world \<Rightarrow> schema option list" where
  "requested_schemas m \<sigma> = map fst (drop (length (llm_calls \<sigma>)) (llm_calls (snd (m \<sigma>))))"


section \<open>The marketing agent: the graph\<close>

text \<open>
  The functions registered as nodes, by name: \<open>add_node(name, f)\<close> binds the
  function \<open>f\<close> of \<open>create_marketing_graph\<close> to the node \<open>name\<close>.
\<close>

datatype node_function =
    analyze_site_function
  | create_personas_function
  | extract_keywords_function
  | search_web_for_competitors_by_hint_function
  | finalize_competitors_function
  | get_marketing_suggestions_function
  | get_subreddits_function
  | end_function

record StateGraph =
  nodes :: "(string \<times> node_function) list"
  edges :: "(string \<times> string) list"
  entry_point :: "string option"

definition new_StateGraph :: StateGraph where
  "new_StateGraph = \<lparr>nodes = [], edges = [], entry_point = None\<rparr>"

definition add_node :: "string \<Rightarrow> node_function \<Rightarrow> StateGraph \<Rightarrow> StateGraph" where
  "add_node node f workflow = workflow\<lparr>nodes := nodes workflow @ [(node, f)]\<rparr>"

definition add_edge :: "string \<Rightarrow> string \<Rightarrow> StateGraph \<Rightarrow> StateGraph" where
  "add_edge start_key end_key workflow =
     workflow\<lparr>edges := edges workflow @ [(start_key, end_key)]\<rparr>"

definition set_entry_point :: "string \<Rightarrow> StateGraph \<Rightarrow> StateGraph" where
  "set_entry_point node workflow = workflow\<lparr>entry_point := Some node\<rparr>"

text \<open>
  \<open>create_marketing_graph\<close>: the builder calls of the source, in its order
  (the calls commented out in the source are not made).
\<close>

definition create_marketing_graph :: StateGraph where
  "create_marketing_graph =
     foldl (\<lambda>workflow call. call workflow) new_StateGraph
       [add_node ''analyze_site'' analyze_site_function,
        add_node ''create_personas'' create_personas_function,
        add_node ''extract_keywords'' extract_keywords_function,
        add_node ''search_web_for_competitors_by_hint''
          search_web_for_competitors_by_hint_function,
        add_node ''finalize_competitors'' finalize_competitors_function,
        add_node ''get_marketing_suggestions'' get_marketing_suggestions_function,
        add_node ''get_subreddits'' get_subreddits_function,
        add_node ''__END__'' end_function,
        add_edge ''analyze_site'' ''create_personas'',
        add_edge ''create_personas'' ''extract_keywords'',
        add_edge ''extract_keywords'' ''search_web_for_competitors_by_hint'',
        add_edge ''search_web_for_competitors_by_hint'' ''finalize_competitors'',
        add_edge ''finalize_competitors'' ''get_marketing_suggestions'',
        add_edge ''finalize_competitors'' ''get_subreddits'',
        add_edge ''get_subreddits'' ''__END__'',
        add_edge ''get_marketing_suggestions'' ''__END__'',
        set_entry_point ''analyze_site'']"

definition marketing_agent :: StateGraph where
  "marketing_agent = create_marketing_graph"

subsection \<open>How a graph is run\<close>

text \<open>
  The graph library runs a compiled graph in steps. The first step runs the
  entry point; every later step runs the nodes that an edge reaches from a
  node of the step before, each once; the nodes of one step see the same
  state, and their returned dictionaries are merged into it afterwards. The
  run ends when a step has no node to run, and is aborted when it takes more
  steps than the recursion limit. A node that raises ends the run there: the
  results of its step are not merged, no later node is run, and the exception
  leaves the run (nothing in the source retries a node or catches its
  exception). A graph built from \<open>add_edge\<close> alone has no other way of choosing
  the next nodes. The node functions \<open>act\<close> and the merge of their results
  are parameters, and so is the state.
\<close>

definition successors :: "StateGraph \<Rightarrow> string \<Rightarrow> string list" where
  "successors g n = map snd (filter (\<lambda>e. fst e = n) (edges g))"

definition next_nodes :: "StateGraph \<Rightarrow> string list \<Rightarrow> string list" where
  "next_nodes g active = remdups (concat (map (successors g) active))"

text \<open>The results of the nodes of one step: the first exception, or all the updates.\<close>

fun collect_updates :: "(exception + 'u) list \<Rightarrow> exception + 'u list" where
  "collect_updates [] = Inr []"
| "collect_updates (Inl e # rs) = Inl e"
| "collect_updates (Inr u # rs) =
     (case collect_updates rs of Inl e \<Rightarrow> Inl e | Inr us \<Rightarrow> Inr (u # us))"

definition run_step ::
  "StateGraph \<Rightarrow> (node_function \<Rightarrow> 's \<Rightarrow> exception + 'u) \<Rightarrow> ('s \<Rightarrow> 'u \<Rightarrow> 's) \<Rightarrow>
   string list \<Rightarrow> 's \<Rightarrow> exception + 's" where
  "run_step g act merge active s =
     (case collect_updates
             (List.map_filter (\<lambda>n. map_option (\<lambda>f. act f s) (map_of (nodes g) n)) active) of
        Inl e \<Rightarrow> Inl e
      | Inr us \<Rightarrow> Inr (foldl merge s us))"

text \<open>
  A run from the nodes \<open>n # ns\<close> in the state \<open>s\<close>: the steps it visited, the
  state it reached, and the exception that ended it, if any. \<open>None\<close> is the
  run aborted by the recursion limit.
\<close>

fun run_from ::
  "nat \<Rightarrow> StateGraph \<Rightarrow> (node_function \<Rightarrow> 's \<Rightarrow> exception + 'u) \<Rightarrow> ('s \<Rightarrow> 'u \<Rightarrow> 's) \<Rightarrow>
   string list \<Rightarrow> 's \<Rightarrow> (string list list \<times> 's \<times> exception option) option" where
  "run_from limit g act merge [] s = Some ([], s, None)"
| "run_from 0 g act merge (n # ns) s = None"
| "run_from (Suc limit) g act merge (n # ns) s =
     (case run_step g act merge (n # ns) s of
        Inl e \<Rightarrow> Some ([n # ns], s, Some e)
      | Inr s' \<Rightarrow>
          map_option (\<lambda>(visited, r). ((n # ns) # visited, r))
            (run_from limit g act merge (next_nodes g (n # ns)) s'))"

definition recursion_limit :: nat where
  "recursion_limit = 25"

definition run_graph ::
  "StateGraph \<Rightarrow> (node_function \<Rightarrow> 's \<Rightarrow> exception + 'u) \<Rightarrow> ('s \<Rightarrow> 'u \<Rightarrow> 's) \<Rightarrow> 's \<Rightarrow>
   (string list list \<times> 's \<times> exception option) option" where
  "run_graph g act merge s =
     (case entry_point g of
        None \<Rightarrow> None
      | Some n \<Rightarrow> run_from recursion_limit g act merge [n] s)"

section \<open>The agent registry\<close>

text \<open>
  \<^verbatim>\<open>agents.py\<close>. \<open>AgentInfo\<close> is declared in \<^verbatim>\<open>schema.py\<close>, not among the
  sources; it is built from the keywords \<open>key\<close> and \<open>description\<close>. The
  dictionary \<open>all_agents\<close> is its list of items, in insertion order.
\<close>

record Agent =
  description :: string
  graph :: StateGraph

record AgentInfo =
  key :: string
  description :: string

definition DEFAULT_AGENT :: string where
  "DEFAULT_AGENT = ''marketing-agent''"

definition all_agents :: "(string \<times> Agent) list" where
  "all_agents =
     [(''marketing-agent'',
       \<lparr>Agent.description = ''A marketing agent.'', graph = marketing_agent\<rparr>)]"

definition get_agent :: "string \<Rightarrow> exception + StateGraph" where
  "get_agent agent_id =
     (case map_of all_agents agent_id of
        None \<Rightarrow> Inl (KeyError agent_id)
      | Some agent \<Rightarrow> Inr (graph agent))"

definition get_all_agent_info :: "AgentInfo list" where
  "get_all_agent_info =
     map (\<lambda>(agent_id, agent).
            \<lparr>key = agent_id, AgentInfo.description = Agent.description agent\<rparr>) all_agents"


section \<open>The vacation house crew\<close>

text \<open>
  \<^verbatim>\<open>vacation_house_agent.py\<close>. An agent of the crew library is kept by its
  role, its tools and its two flags; a task by the template of its
  description with the values interpolated into it, its output schema, its
  context, its agent and its tools. The constant prose of \<open>goal\<close>,
  \<open>backstory\<close> and \<open>expected_output\<close>, the shared model \<open>self.llm\<close> and the
  callback \<open>self.append_event_callback\<close> (the same for every task) are left
  out. An argument the source does not pass is \<open>None\<close>. (\<open>context\<close> is a
  reserved word of the theory language, hence \<open>context'\<close>.)
\<close>

definition CITY_LIMIT :: int where
  "CITY_LIMIT = 1"

definition HOME_LIMIT :: int where
  "HOME_LIMIT = 2"

datatype tool = WebSearchTool | ScrapeWebTool | HomeFinderTool | DistanceCalculatorTool

record crewai_Agent =
  role :: string
  tools :: "tool list"
  verbose :: bool
  allow_delegation :: bool

datatype json_schema = CandidateCities | HomeMatches

datatype task_description =
    find_candidate_cities_description string int
  | find_vacation_homes_description string int
  | verify_listings_description
  | find_local_businesses_description
  | summarize_description string

datatype Task =
  Task (description: task_description)
       (output_json_schema: "json_schema option")
       (context': "Task list option")
       (agent: crewai_Agent)
       (tools: "tool list option")

datatype Process = sequential | hierarchical

record Crew =
  agents :: "crewai_Agent list"
  tasks :: "Task list"
  verbose :: bool
  process :: Process

definition city_researcher :: crewai_Agent where
  "city_researcher =
     \<lparr>role = ''City Researcher'', crewai_Agent.tools = [WebSearchTool, ScrapeWebTool],
      crewai_Agent.verbose = True, allow_delegation = False\<rparr>"

definition real_estate_agent :: crewai_Agent where
  "real_estate_agent =
     \<lparr>role = ''Real Estate Agent'', crewai_Agent.tools = [WebSearchTool, ScrapeWebTool],
      crewai_Agent.verbose = True, allow_delegation = False\<rparr>"

definition local_expert :: crewai_Agent where
  "local_expert =
     \<lparr>role = ''Local Expert Agent'', crewai_Agent.tools = [WebSearchTool, ScrapeWebTool],
      crewai_Agent.verbose = True, allow_delegation = False\<rparr>"

definition create_agents :: "crewai_Agent list" where
  "create_agents = [city_researcher, real_estate_agent, local_expert]"

definition find_candidate_cities_task :: "crewai_Agent \<Rightarrow> string \<Rightarrow> Task" where
  "find_candidate_cities_task a query =
     Task (find_candidate_cities_description query CITY_LIMIT) (Some CandidateCities)
       None a (Some [WebSearchTool, ScrapeWebTool])"

definition find_vacation_homes_task :: "crewai_Agent \<Rightarrow> string \<Rightarrow> Task \<Rightarrow> Task" where
  "find_vacation_homes_task a query task =
     Task (find_vacation_homes_description query HOME_LIMIT) (Some HomeMatches)
       (Some [task]) a (Some [WebSearchTool, ScrapeWebTool])"

definition verify_listings :: "crewai_Agent \<Rightarrow> Task \<Rightarrow> Task" where
  "verify_listings a homes_task =
     Task verify_listings_description (Some HomeMatches)
       (Some [homes_task]) a (Some [WebSearchTool, ScrapeWebTool])"

definition find_local_businesses_task :: "crewai_Agent \<Rightarrow> Task \<Rightarrow> Task" where
  "find_local_businesses_task a listings_task =
     Task find_local_businesses_description (Some HomeMatches)
       (Some [listings_task]) a (Some [WebSearchTool, ScrapeWebTool, DistanceCalculatorTool])"

definition summarize_task :: "crewai_Agent \<Rightarrow> string \<Rightarrow> Task list \<Rightarrow> Task" where
  "summarize_task a query ts =
     Task (summarize_description query) None (Some ts) a None"

definition create_tasks :: "string \<Rightarrow> Task list" where
  "create_tasks query =
     (let city_research_task = find_candidate_cities_task city_researcher query;
          real_estate_task = find_vacation_homes_task real_estate_agent query city_research_task;
          verify_listings_task = verify_listings real_estate_agent real_estate_task;
          local_business_task = find_local_businesses_task local_expert verify_listings_task;
          summarize_task' = summarize_task city_researcher query
            [city_research_task, verify_listings_task, local_business_task]
      in [city_research_task, real_estate_task, verify_listings_task, local_business_task,
          summarize_task'])"

text \<open>
  \<open>run\<close>. \<open>crew.kickoff()\<close> is a parameter: given the crew it returns the
  results or raises; \<open>str_results\<close> is \<open>str\<close> on the results, for the line
  that is printed. \<open>run\<close> returns either what \<open>kickoff\<close> returned or a text.
  The printed lines are appended to \<open>out\<close>.
\<close>

datatype 'r returned = returned_results 'r | returned_text string

definition run ::
  "(Crew \<Rightarrow> exception + 'r) \<Rightarrow> ('r \<Rightarrow> string) \<Rightarrow> (string \<rightharpoonup> string) \<Rightarrow> string list \<Rightarrow>
   (exception + 'r returned) \<times> string list" where
  "run kickoff str_results input_data out =
     (case getitem ''query'' (input_data ''query'') of
        Inl e \<Rightarrow> (Inl e, out)
      | Inr query \<Rightarrow>
          (let crew = \<lparr>agents = create_agents, tasks = create_tasks query,
                       Crew.verbose = True, process = sequential\<rparr>
           in case kickoff crew of
                Inr r \<Rightarrow> (Inr (returned_results r), out @ [''Crew Results:  '' @ str_results r])
              | Inl e \<Rightarrow>
                  (Inr (returned_text (''Error running crew: '' @ str_exception e)),
                   out @ [''Crew Error: '' @ str_exception e])))"


section \<open>Properties of the colleges reducer\<close>

subsection \<open>The code's loops compute replace-or-append\<close>

lemma find_and_replace_prefix:
  "length pre = i \<Longrightarrow>
   (case find_and_replace rest i (pre @ rest) c of
      (r, found) \<Rightarrow> (if found then r else r @ [c])) = pre @ spec_replace_or_append c rest"
proof (induction rest arbitrary: pre i)
  case Nil
  then show ?case by simp
next
  case (Cons x rest)
  show ?case
  proof (cases "name x = name c")
    case True
    with Cons.prems show ?thesis by (simp add: list_update_append)
  next
    case False
    from Cons.prems have "length (pre @ [x]) = Suc i" by simp
    from Cons.IH [OF this] False show ?thesis by simp
  qed
qed

lemma merge_college_spec: "merge_college result c = spec_replace_or_append c result"
  using find_and_replace_prefix [where pre = "[]" and i = 0 and rest = result and c = c]
  by (simp add: merge_college_def split: prod.splits if_splits)

lemma for_new_college_spec: "for_new_college result upd = spec_merge_by_name result upd"
  by (induction upd arbitrary: result) (simp_all add: spec_merge_by_name_def merge_college_spec)

lemma names_replace_or_append:
  "map name (spec_replace_or_append c xs) =
     (if name c \<in> set (map name xs) then map name xs else map name xs @ [name c])"
  by (induction xs) auto

lemma nth_replace_or_append:
  "i < length xs \<Longrightarrow> name (xs ! i) \<noteq> name c \<Longrightarrow> spec_replace_or_append c xs ! i = xs ! i"
proof (induction xs arbitrary: i)
  case Nil
  then show ?case by simp
next
  case (Cons x xs)
  then show ?case by (cases i) auto
qed

lemma length_replace_or_append: "length xs \<le> length (spec_replace_or_append c xs)"
  by (induction xs) auto

lemma merge_keeps_other_names:
  "i < length cur \<Longrightarrow> name (cur ! i) \<notin> name ` set upd \<Longrightarrow>
   i < length (spec_merge_by_name cur upd) \<and> spec_merge_by_name cur upd ! i = cur ! i"
proof (induction upd arbitrary: cur)
  case Nil
  then show ?case by (simp add: spec_merge_by_name_def)
next
  case (Cons c upd)
  let ?cur' = "spec_replace_or_append c cur"
  from Cons.prems have ne: "name (cur ! i) \<noteq> name c" by auto
  with Cons.prems have same: "?cur' ! i = cur ! i" by (simp add: nth_replace_or_append)
  from Cons.prems length_replace_or_append [of cur c] have len: "i < length ?cur'" by simp
  from Cons.prems same have "name (?cur' ! i) \<notin> name ` set upd" by simp
  from Cons.IH [OF len this] same show ?case by (simp add: spec_merge_by_name_def)
qed

lemma distinct_replace_or_append:
  "distinct (map name xs) \<Longrightarrow> distinct (map name (spec_replace_or_append c xs))"
  by (simp add: names_replace_or_append)

lemma distinct_merge:
  "distinct (map name cur) \<Longrightarrow> distinct (map name (spec_merge_by_name cur upd))"
  by (induction upd arbitrary: cur) (simp_all add: spec_merge_by_name_def distinct_replace_or_append)

text \<open>
  Claim C1. \<open>colleges_reducer\<close> is a replace-by-key reducer: with the update
  \<open>None\<close> it returns \<open>current\<close>; otherwise it processes the colleges of the
  update in order, each replacing the first college of the accumulated result
  that has its name, or being appended when there is none (which is
  \<open>spec_merge_by_name\<close>); and a college of \<open>current\<close> whose name does not
  occur in the update is in the result, unchanged, at its position.
\<close>

theorem colleges_reducer_merge_by_name:
  "colleges_reducer current None = current \<and>
   colleges_reducer current (Some upd) = spec_merge_by_name current upd \<and>
   (\<forall>i < length current. name (current ! i) \<notin> name ` set upd \<longrightarrow>
        i < length (colleges_reducer current (Some upd)) \<and>
        colleges_reducer current (Some upd) ! i = current ! i)"
  by (simp add: colleges_reducer_def for_new_college_spec merge_keeps_other_names)

text \<open>
  The theorem at a list of three colleges and an update that replaces one of
  them and names a new college twice.
\<close>

theorem colleges_reducer_merge_by_name_witness:
  "(let college = (\<lambda>n l. \<lparr>name = n, location = l, College.description = ''d'',
        acceptance_rate = None, tuition = None, enrollment = None, dorm_percentage = None,
        sat_scores = None, programs = None, url = None, has_missing_fields = False\<rparr>);
        current = [college ''MIT'' ''old'', college ''Yale'' ''old'', college ''Reed'' ''old''];
        upd = [college ''Yale'' ''new'', college ''Pomona'' ''new'', college ''Pomona'' ''newer'']
    in (0::nat) < length current \<and> name (current ! 0) \<notin> name ` set upd \<and>
       colleges_reducer current (Some upd) ! 0 = current ! 0 \<and>
       colleges_reducer current (Some upd) =
         [college ''MIT'' ''old'', college ''Yale'' ''new'', college ''Reed'' ''old'',
          college ''Pomona'' ''newer''])"
  using colleges_reducer_merge_by_name
    [of "[\<lparr>name = ''MIT'', location = ''old'', College.description = ''d'',
        acceptance_rate = None, tuition = None, enrollment = None, dorm_percentage = None,
        sat_scores = None, programs = None, url = None, has_missing_fields = False\<rparr>,
         \<lparr>name = ''Yale'', location = ''old'', College.description = ''d'',
        acceptance_rate = None, tuition = None, enrollment = None, dorm_percentage = None,
        sat_scores = None, programs = None, url = None, has_missing_fields = False\<rparr>,
         \<lparr>name = ''Reed'', location = ''old'', College.description = ''d'',
        acceptance_rate = None, tuition = None, enrollment = None, dorm_percentage = None,
        sat_scores = None, programs = None, url = None, has_missing_fields = False\<rparr>]"
       "[\<lparr>name = ''Yale'', location = ''new'', College.description = ''d'',
        acceptance_rate = None, tuition = None, enrollment = None, dorm_percentage = None,
        sat_scores = None, programs = None, url = None, has_missing_fields = False\<rparr>,
         \<lparr>name = ''Pomona'', location = ''new'', College.description = ''d'',
        acceptance_rate = None, tuition = None, enrollment = None, dorm_percentage = None,
        sat_scores = None, programs = None, url = None, has_missing_fields = False\<rparr>,
         \<lparr>name = ''Pomona'', location = ''newer'', College.description = ''d'',
        acceptance_rate = None, tuition = None, enrollment = None, dorm_percentage = None,
        sat_scores = None, programs = None, url = None, has_missing_fields = False\<rparr>]"]
  by (simp add: Let_def spec_merge_by_name_def)

text \<open>
  Claim C8. \<open>colleges_reducer\<close> keeps the names unique: when the names of
  \<open>current\<close> are pairwise distinct, so are the names of the result, for every
  update.
\<close>

theorem colleges_reducer_keeps_names_distinct:
  "distinct (map name current) \<Longrightarrow>
   distinct (map name (colleges_reducer current update))"
  by (cases update) (simp_all add: colleges_reducer_def for_new_college_spec distinct_merge)

text \<open>The theorem at two colleges and an update naming one of them and a new one twice.\<close>

theorem colleges_reducer_keeps_names_distinct_witness:
  "(let college = (\<lambda>n l. \<lparr>name = n, location = l, College.description = ''d'',
        acceptance_rate = None, tuition = None, enrollment = None, dorm_percentage = None,
        sat_scores = None, programs = None, url = None, has_missing_fields = False\<rparr>);
        current = [college ''MIT'' ''old'', college ''Yale'' ''old''];
        upd = [college ''Yale'' ''new'', college ''Reed'' ''new'', college ''Reed'' ''newer'']
    in distinct (map name current) \<and>
       distinct (map name (colleges_reducer current (Some upd))) \<and>
       map name (colleges_reducer current (Some upd)) = [''MIT'', ''Yale'', ''Reed''])"
  using colleges_reducer_keeps_names_distinct
    [of "[\<lparr>name = ''MIT'', location = ''old'', College.description = ''d'',
        acceptance_rate = None, tuition = None, enrollment = None, dorm_percentage = None,
        sat_scores = None, programs = None, url = None, has_missing_fields = False\<rparr>,
         \<lparr>name = ''Yale'', location = ''old'', College.description = ''d'',
        acceptance_rate = None, tuition = None, enrollment = None, dorm_percentage = None,
        sat_scores = None, programs = None, url = None, has_missing_fields = False\<rparr>]"
       "Some [\<lparr>name = ''Yale'', location = ''new'', College.description = ''d'',
        acceptance_rate = None, tuition = None, enrollment = None, dorm_percentage = None,
        sat_scores = None, programs = None, url = None, has_missing_fields = False\<rparr>,
         \<lparr>name = ''Reed'', location = ''new'', College.description = ''d'',
        acceptance_rate = None, tuition = None, enrollment = None, dorm_percentage = None,
        sat_scores = None, programs = None, url = None, has_missing_fields = False\<rparr>,
         \<lparr>name = ''Reed'', location = ''newer'', College.description = ''d'',
        acceptance_rate = None, tuition = None, enrollment = None, dorm_percentage = None,
        sat_scores = None, programs = None, url = None, has_missing_fields = False\<rparr>]"]
  by (simp add: Let_def colleges_reducer_def merge_college_def)

section \<open>Properties of the annotated fields\<close>

text \<open>
  Claim C2. The fields of \<open>CollegeFinderState\<close> annotated with \<open>operator.add\<close>
  are \<open>search_results\<close>, \<open>recommendations\<close>, \<open>messages\<close> and
  \<open>status_updates\<close>; that reducer merges a current list and an update into the
  current list followed by the update, so the empty list is neutral on either
  side and merging is associative.
\<close>

theorem list_fields_are_appended:
  "map fst (filter (\<lambda>f. snd f = Some operator_add_reducer) CollegeFinderState_fields) =
     [''search_results'', ''recommendations'', ''messages'', ''status_updates''] \<and>
   operator_add current update = current @ update \<and>
   operator_add [] update = update \<and>
   operator_add current [] = current \<and>
   operator_add (operator_add a b) c = operator_add a (operator_add b c)"
  by (simp add: CollegeFinderState_fields_def operator_add_def)

section \<open>Properties of the marketing graph\<close>

lemma marketing_graph_built:
  "create_marketing_graph =
     \<lparr>nodes =
        [(''analyze_site'', analyze_site_function),
         (''create_personas'', create_personas_function),
         (''extract_keywords'', extract_keywords_function),
         (''search_web_for_competitors_by_hint'', search_web_for_competitors_by_hint_function),
         (''finalize_competitors'', finalize_competitors_function),
         (''get_marketing_suggestions'', get_marketing_suggestions_function),
         (''get_subreddits'', get_subreddits_function),
         (''__END__'', end_function)],
      edges =
        [(''analyze_site'', ''create_personas''),
         (''create_personas'', ''extract_keywords''),
         (''extract_keywords'', ''search_web_for_competitors_by_hint''),
         (''search_web_for_competitors_by_hint'', ''finalize_competitors''),
         (''finalize_competitors'', ''get_marketing_suggestions''),
         (''finalize_competitors'', ''get_subreddits''),
         (''get_subreddits'', ''__END__''),
         (''get_marketing_suggestions'', ''__END__'')],
      entry_point = Some ''analyze_site''\<rparr>"
  by (simp add: create_marketing_graph_def new_StateGraph_def add_node_def add_edge_def
      set_entry_point_def)

lemma next_nodes_marketing:
  "next_nodes create_marketing_graph [''analyze_site''] = [''create_personas'']"
  "next_nodes create_marketing_graph [''create_personas''] = [''extract_keywords'']"
  "next_nodes create_marketing_graph [''extract_keywords''] =
     [''search_web_for_competitors_by_hint'']"
  "next_nodes create_marketing_graph [''search_web_for_competitors_by_hint''] =
     [''finalize_competitors'']"
  "next_nodes create_marketing_graph [''finalize_competitors''] =
     [''get_marketing_suggestions'', ''get_subreddits'']"
  "next_nodes create_marketing_graph [''get_marketing_suggestions'', ''get_subreddits''] =
     [''__END__'']"
  "next_nodes create_marketing_graph [''__END__''] = []"
  by (simp_all add: marketing_graph_built next_nodes_def successors_def)

section \<open>Properties of the agent registry\<close>

lemma all_agents_keys: "map fst all_agents = [''marketing-agent'']"
  by (simp add: all_agents_def)

lemma get_agent_registered: "get_agent ''marketing-agent'' = Inr marketing_agent"
  by (simp add: get_agent_def all_agents_def)

lemma get_agent_unregistered:
  "agent_id \<notin> set (map fst all_agents) \<Longrightarrow> get_agent agent_id = Inl (KeyError agent_id)"
  by (simp add: get_agent_def all_agents_def)

lemma get_agent_defined:
  "agent_id \<in> set (map fst all_agents) \<Longrightarrow>
   \<exists>a. (agent_id, a) \<in> set all_agents \<and> get_agent agent_id = Inr (graph a)"
  by (simp add: get_agent_def all_agents_def)

text \<open>
  Claim C10. \<open>get_agent\<close> returns the graph of the agent registered under
  \<open>agent_id\<close> when there is one, and raises \<open>KeyError\<close> for every other id; the
  only registered id is \<open>marketing-agent\<close>, whose graph is \<open>marketing_agent\<close>;
  \<open>get_all_agent_info\<close> has one entry per registered agent, with that agent's id
  and description.
\<close>

theorem get_agent_on_registered_ids:
  "(agent_id \<in> set (map fst all_agents) \<longrightarrow>
      (\<exists>a. (agent_id, a) \<in> set all_agents \<and> get_agent agent_id = Inr (graph a))) \<and>
   (agent_id \<notin> set (map fst all_agents) \<longrightarrow> get_agent agent_id = Inl (KeyError agent_id)) \<and>
   map fst all_agents = [''marketing-agent''] \<and>
   get_agent ''marketing-agent'' = Inr marketing_agent \<and>
   map AgentInfo.key get_all_agent_info = map fst all_agents \<and>
   map AgentInfo.description get_all_agent_info = map (\<lambda>(k, a). Agent.description a) all_agents \<and>
   get_all_agent_info =
     [\<lparr>key = ''marketing-agent'', AgentInfo.description = ''A marketing agent.''\<rparr>]"
  using get_agent_defined [of agent_id] get_agent_unregistered [of agent_id]
    get_agent_registered all_agents_keys
  by (simp add: get_all_agent_info_def all_agents_def)

text \<open>The theorem at an id that is not registered and at the one that is.\<close>

theorem get_agent_on_registered_ids_witness:
  "''college-finder'' \<notin> set (map fst all_agents) \<and>
   get_agent ''college-finder'' = Inl (KeyError ''college-finder'') \<and>
   ''marketing-agent'' \<in> set (map fst all_agents) \<and>
   get_agent ''marketing-agent'' = Inr marketing_agent"
  using get_agent_on_registered_ids [of "''college-finder''"]
    get_agent_on_registered_ids [of "''marketing-agent''"]
  by (simp add: all_agents_def)

section \<open>Properties of the vacation house crew\<close>

lemma create_tasks_unfolded:
  "create_tasks q =
     [find_candidate_cities_task city_researcher q,
      find_vacation_homes_task real_estate_agent q (find_candidate_cities_task city_researcher q),
      verify_listings real_estate_agent
        (find_vacation_homes_task real_estate_agent q
           (find_candidate_cities_task city_researcher q)),
      find_local_businesses_task local_expert
        (verify_listings real_estate_agent
           (find_vacation_homes_task real_estate_agent q
              (find_candidate_cities_task city_researcher q))),
      summarize_task city_researcher q
        [find_candidate_cities_task city_researcher q,
         verify_listings real_estate_agent
           (find_vacation_homes_task real_estate_agent q
              (find_candidate_cities_task city_researcher q)),
         find_local_businesses_task local_expert
           (verify_listings real_estate_agent
              (find_vacation_homes_task real_estate_agent q
                 (find_candidate_cities_task city_researcher q)))]]"
  by (simp add: create_tasks_def Let_def)

lemma task_fields [simp]:
  "Task.description (find_candidate_cities_task a q) = find_candidate_cities_description q CITY_LIMIT"
  "Task.description (find_vacation_homes_task a q t) = find_vacation_homes_description q HOME_LIMIT"
  "Task.description (verify_listings a t) = verify_listings_description"
  "Task.description (find_local_businesses_task a t) = find_local_businesses_description"
  "Task.description (summarize_task a q ts) = summarize_description q"
  "context' (find_candidate_cities_task a q) = None"
  "context' (find_vacation_homes_task a q t) = Some [t]"
  "context' (verify_listings a t) = Some [t]"
  "context' (find_local_businesses_task a t) = Some [t]"
  "context' (summarize_task a q ts) = Some ts"
  "output_json_schema (find_candidate_cities_task a q) = Some CandidateCities"
  "output_json_schema (find_vacation_homes_task a q t) = Some HomeMatches"
  "output_json_schema (verify_listings a t) = Some HomeMatches"
  "output_json_schema (find_local_businesses_task a t) = Some HomeMatches"
  "output_json_schema (summarize_task a q ts) = None"
  by (simp_all add: find_candidate_cities_task_def find_vacation_homes_task_def
      verify_listings_def find_local_businesses_task_def summarize_task_def)

lemma run_with_query:
  "input_data ''query'' = Some q \<Longrightarrow>
   run kickoff str_results input_data out =
     (case kickoff \<lparr>agents = create_agents, tasks = create_tasks q, Crew.verbose = True,
                     process = sequential\<rparr> of
        Inr r \<Rightarrow> (Inr (returned_results r), out @ [''Crew Results:  '' @ str_results r])
      | Inl e \<Rightarrow> (Inr (returned_text (''Error running crew: '' @ str_exception e)),
                  out @ [''Crew Error: '' @ str_exception e]))"
  by (simp add: run_def getitem_def Let_def)

text \<open>
  Claim C4. \<open>create_tasks\<close> returns five tasks, in the order city research,
  find vacation homes, verify listings, find local businesses, summarize; the
  second, third and fourth have exactly the task before them as context, the
  summary has the city research, verify listings and local business tasks; and
  \<open>run\<close>, given an input with a query, executes these tasks with the
  sequential process: what it returns and prints is what \<open>kickoff\<close> does on the
  crew of exactly these tasks, the agents of \<open>create_agents\<close> and
  \<open>Process.sequential\<close>.
\<close>

theorem create_tasks_linear_chain:
  "length (create_tasks q) = 5 \<and>
   map Task.description (create_tasks q) =
     [find_candidate_cities_description q CITY_LIMIT,
      find_vacation_homes_description q HOME_LIMIT,
      verify_listings_description,
      find_local_businesses_description,
      summarize_description q] \<and>
   context' (create_tasks q ! 0) = None \<and>
   context' (create_tasks q ! 1) = Some [create_tasks q ! 0] \<and>
   context' (create_tasks q ! 2) = Some [create_tasks q ! 1] \<and>
   context' (create_tasks q ! 3) = Some [create_tasks q ! 2] \<and>
   context' (create_tasks q ! 4) = Some [create_tasks q ! 0, create_tasks q ! 2, create_tasks q ! 3] \<and>
   run kickoff str_results (input_data(''query'' \<mapsto> q)) out =
     (case kickoff \<lparr>agents = create_agents, tasks = create_tasks q, Crew.verbose = True,
                     process = sequential\<rparr> of
        Inr r \<Rightarrow> (Inr (returned_results r), out @ [''Crew Results:  '' @ str_results r])
      | Inl e \<Rightarrow> (Inr (returned_text (''Error running crew: '' @ str_exception e)),
                  out @ [''Crew Error: '' @ str_exception e]))"
proof -
  have "run kickoff str_results (input_data(''query'' \<mapsto> q)) out =
     (case kickoff \<lparr>agents = create_agents, tasks = create_tasks q, Crew.verbose = True,
                     process = sequential\<rparr> of
        Inr r \<Rightarrow> (Inr (returned_results r), out @ [''Crew Results:  '' @ str_results r])
      | Inl e \<Rightarrow> (Inr (returned_text (''Error running crew: '' @ str_exception e)),
                  out @ [''Crew Error: '' @ str_exception e]))"
    by (rule run_with_query) simp
  moreover have "length (create_tasks q) = 5"
    by (simp add: create_tasks_unfolded)
  moreover have "map Task.description (create_tasks q) =
     [find_candidate_cities_description q CITY_LIMIT,
      find_vacation_homes_description q HOME_LIMIT,
      verify_listings_description,
      find_local_businesses_description,
      summarize_description q]"
    by (simp add: create_tasks_unfolded)
  moreover have "context' (create_tasks q ! 0) = None"
    "context' (create_tasks q ! 1) = Some [create_tasks q ! 0]"
    "context' (create_tasks q ! 2) = Some [create_tasks q ! 1]"
    "context' (create_tasks q ! 3) = Some [create_tasks q ! 2]"
    "context' (create_tasks q ! 4) = Some [create_tasks q ! 0, create_tasks q ! 2, create_tasks q ! 3]"
    by (simp_all add: create_tasks_unfolded)
  ultimately show ?thesis by blast
qed

text \<open>
  Claim C6. \<open>run\<close> does not propagate an exception of the crew: when
  \<open>kickoff\<close> raises \<open>e\<close>, \<open>run\<close> prints the error and returns the text
  \<open>Error running crew: \<close> followed by \<open>str(e)\<close>; when \<open>kickoff\<close> returns, \<open>run\<close>
  returns its results unchanged. (The only exception \<open>run\<close> can raise is the
  \<open>KeyError\<close> of an input without \<open>query\<close>, before there is a crew.)
\<close>

theorem run_catches_kickoff_exception:
  "input_data ''query'' = Some q \<Longrightarrow>
   (kickoff \<lparr>agents = create_agents, tasks = create_tasks q, Crew.verbose = True,
             process = sequential\<rparr> = Inl e \<longrightarrow>
      run kickoff str_results input_data out =
        (Inr (returned_text (''Error running crew: '' @ str_exception e)),
         out @ [''Crew Error: '' @ str_exception e])) \<and>
   (kickoff \<lparr>agents = create_agents, tasks = create_tasks q, Crew.verbose = True,
             process = sequential\<rparr> = Inr r \<longrightarrow>
      run kickoff str_results input_data out =
        (Inr (returned_results r), out @ [''Crew Results:  '' @ str_results r])) \<and>
   (\<forall>e'. fst (run kickoff str_results input_data out) \<noteq> Inl e')"
  by (simp add: run_with_query split: sum.splits)

text \<open>The theorem at a crew that raises and at a crew that returns.\<close>

theorem run_catches_kickoff_exception_witness:
  "[''query'' \<mapsto> ''a cabin near a lake''] ''query'' = Some ''a cabin near a lake'' \<and>
   run (\<lambda>crew. Inl (Exception ''rate limit'')) (\<lambda>r. r)
       [''query'' \<mapsto> ''a cabin near a lake''] [] =
     (Inr (returned_text ''Error running crew: rate limit''), [''Crew Error: rate limit'']) \<and>
   run (\<lambda>crew. Inr ''summary'') (\<lambda>r. r) [''query'' \<mapsto> ''a cabin near a lake''] [] =
     (Inr (returned_results ''summary''), [''Crew Results:  summary''])"
  using run_catches_kickoff_exception
      [of "[''query'' \<mapsto> ''a cabin near a lake'']" "''a cabin near a lake''"
          "\<lambda>crew. Inl (Exception ''rate limit'')" "Exception ''rate limit''"
          "\<lambda>r. r" "[]" "''unused''"]
    run_catches_kickoff_exception
      [of "[''query'' \<mapsto> ''a cabin near a lake'']" "''a cabin near a lake''"
          "\<lambda>crew. Inr ''summary''" "Exception ''unused''"
          "\<lambda>r. r" "[]" "''summary''"]
  by simp

section \<open>Properties of the marketing nodes\<close>

lemma io_bind_lift_Inr [simp]: "io_bind (io_lift (Inr x)) f = f x"
  by (rule ext) (simp add: io_bind_def io_lift_def)

lemma io_bind_lift_Inl [simp]: "io_bind (io_lift (Inl e)) f \<sigma> = (Inl e, \<sigma>)"
  by (simp add: io_bind_def io_lift_def)

lemma getitem_Some [simp]: "getitem k (Some v) = Inr v"
  by (simp add: getitem_def)

lemma getitem_None [simp]: "getitem k None = Inl (KeyError k)"
  by (simp add: getitem_def)

lemma prefix_slice_upto: "prefix (slice_upto xs n) xs"
  by (simp add: slice_upto_def take_is_prefix)

lemma length_slice_upto: "0 \<le> n \<Longrightarrow> int (length (slice_upto xs n)) \<le> n"
  by (simp add: slice_upto_def)

lemma create_personas_returns:
  assumes "max_personas state = Some mp" and "appName state = Some an"
    and "appDescription state = Some ad" and "keyfeatures state = Some kf"
    and "value_proposition state = Some vp"
    and "llm (external \<sigma>) (Some PersonaList) (create_personas_prompt mp an ad kf vp) =
           (Inr (PersonaList_value ps), w)"
    and "py_int mp = Inr n"
  shows "create_personas llm py_int state \<sigma> =
           (Inr (empty_dict\<lparr>personas := Some (slice_upto ps n)\<rparr>),
            \<sigma>\<lparr>external := w,
              llm_calls := llm_calls \<sigma> @
                [(Some PersonaList, create_personas_prompt mp an ad kf vp)]\<rparr>)"
  using assms
  by (simp add: create_personas_def with_structured_output_def invoke_def io_bind_def
      io_lift_def io_return_def)

text \<open>
  Where \<open>int(state['max_personas'])\<close> is not negative the cap holds. When the
  state has the keys the prompt reads, the model answers the request with a
  list of personas and \<open>int(state['max_personas'])\<close> is \<open>n\<close>, what
  \<open>create_personas\<close> writes is a prefix of the model's list, of length at most
  \<open>n\<close> when \<open>n\<close> is not negative.
\<close>

lemma create_personas_caps_output:
  assumes "max_personas state = Some mp" and "appName state = Some an"
    and "appDescription state = Some ad" and "keyfeatures state = Some kf"
    and "value_proposition state = Some vp"
    and "llm (external \<sigma>) (Some PersonaList) (create_personas_prompt mp an ad kf vp) =
           (Inr (PersonaList_value ps), w)"
    and "py_int mp = Inr n"
  shows "fst (create_personas llm py_int state \<sigma>) =
           Inr (empty_dict\<lparr>personas := Some (slice_upto ps n)\<rparr>) \<and>
         prefix (slice_upto ps n) ps \<and>
         (0 \<le> n \<longrightarrow> int (length (slice_upto ps n)) \<le> n)"
proof -
  from assms have "create_personas llm py_int state \<sigma> =
           (Inr (empty_dict\<lparr>personas := Some (slice_upto ps n)\<rparr>),
            \<sigma>\<lparr>external := w,
              llm_calls := llm_calls \<sigma> @
                [(Some PersonaList, create_personas_prompt mp an ad kf vp)]\<rparr>)"
    by (rule create_personas_returns)
  then show ?thesis
    by (simp add: prefix_slice_upto length_slice_upto)
qed

text \<open>At \<open>max_personas = 2\<close> and a model that returns three personas, two are written.\<close>

lemma create_personas_caps_output_example:
  "fst (create_personas (\<lambda>w s q. (Inr (PersonaList_value [''Ann'', ''Bob'', ''Cy'']), w)) Inr
         (empty_dict\<lparr>appName := Some ''App'', appDescription := Some ''an app'',
            keyfeatures := Some [''fast''], value_proposition := Some ''saves time'',
            max_personas := Some (2::int)\<rparr>)
         \<lparr>external = (), llm_calls = [], stdout = []\<rparr>) =
     Inr (empty_dict\<lparr>personas := Some [''Ann'', ''Bob'']\<rparr>) \<and>
   prefix [''Ann'', ''Bob''] [''Ann'', ''Bob'', ''Cy''] \<and>
   int (length [''Ann'', ''Bob'']) \<le> 2"
  using create_personas_caps_output
    [of "empty_dict\<lparr>appName := Some ''App'', appDescription := Some ''an app'',
            keyfeatures := Some [''fast''], value_proposition := Some ''saves time'',
            max_personas := Some (2::int)\<rparr>"
        2 "''App''" "''an app''" "[''fast'']" "''saves time''"
        "\<lambda>w s q. (Inr (PersonaList_value [''Ann'', ''Bob'', ''Cy'']), w)"
        "\<lparr>external = (), llm_calls = [], stdout = []\<rparr>"
        "[''Ann'', ''Bob'', ''Cy'']" "()" Inr 2]
  by (simp add: empty_dict_def slice_upto_def)

text \<open>
  Claim C9. \<open>create_personas\<close> is to cap what it writes at
  \<open>int(state['max_personas'])\<close> personas (the source: "Take only up to
  max_personas"). At \<open>max_personas = -1\<close> it does not: the slice
  \<open>response.personas[:-1]\<close> drops the last persona only, so of three personas
  returned by the model two are written, and two is not at most \<open>-1\<close>.
\<close>

theorem create_personas_negative_max_writes_two:
  "fst (create_personas (\<lambda>w s q. (Inr (PersonaList_value [''Ann'', ''Bob'', ''Cy'']), w)) Inr
         (empty_dict\<lparr>appName := Some ''App'', appDescription := Some ''an app'',
            keyfeatures := Some [''fast''], value_proposition := Some ''saves time'',
            max_personas := Some (- 1 :: int)\<rparr>)
         \<lparr>external = (), llm_calls = [], stdout = []\<rparr>) =
     Inr (empty_dict\<lparr>personas := Some [''Ann'', ''Bob'']\<rparr>) \<and>
   \<not> int (length [''Ann'', ''Bob'']) \<le> - 1"
  by (simp add: create_personas_def with_structured_output_def invoke_def io_bind_def
      io_lift_def io_return_def empty_dict_def slice_upto_def)

lemma process_link_stdout: "stdout (snd (process_link llm scraper sr \<sigma>)) = stdout \<sigma>"
  by (simp add: process_link_def io_bind_def scrape_web_def with_structured_output_def
      invoke_def io_lift_def split: prod.splits sum.splits)

lemma length_link_outcomes: "length (link_outcomes llm scraper srs \<sigma>) = length srs"
  by (induction srs arbitrary: \<sigma>) (simp_all split: prod.splits sum.splits)

lemma for_search_results_gathers:
  "fst (for_search_results llm scraper srs results \<sigma>) =
     results @ gathered (link_outcomes llm scraper srs \<sigma>)"
proof (induction srs arbitrary: results \<sigma>)
  case Nil
  show ?case by (simp add: gathered_def)
next
  case (Cons sr srs)
  obtain r \<sigma>' where step: "process_link llm scraper sr \<sigma> = (r, \<sigma>')"
    by (cases "process_link llm scraper sr \<sigma>")
  show ?case
  proof (cases r)
    case (Inl e)
    with step Cons.IH show ?thesis by (simp add: gathered_def)
  next
    case (Inr cs)
    with step Cons.IH show ?thesis by (simp add: gathered_def)
  qed
qed

lemma for_search_results_prints:
  "stdout (snd (for_search_results llm scraper srs results \<sigma>)) =
     stdout \<sigma> @ error_lines srs (link_outcomes llm scraper srs \<sigma>)"
proof (induction srs arbitrary: results \<sigma>)
  case Nil
  show ?case by (simp add: error_lines_def)
next
  case (Cons sr srs)
  obtain r \<sigma>' where step: "process_link llm scraper sr \<sigma> = (r, \<sigma>')"
    by (cases "process_link llm scraper sr \<sigma>")
  from process_link_stdout [of llm scraper sr \<sigma>] step have same: "stdout \<sigma>' = stdout \<sigma>"
    by simp
  show ?case
  proof (cases r)
    case (Inl e)
    with step same Cons.IH show ?thesis by (simp add: error_lines_def print_def)
  next
    case (Inr cs)
    with step same Cons.IH show ?thesis by (simp add: error_lines_def)
  qed
qed

lemma llm_calls_print [simp]: "llm_calls (print line \<sigma>) = llm_calls \<sigma>"
  by (simp add: print_def)

lemma external_print [simp]: "external (print line \<sigma>) = external \<sigma>"
  by (simp add: print_def)

lemma finalize_competitors_ranks_gathered:
  assumes "search_results state = Some srs" and "appName state = Some an"
    and "appDescription state = Some ad"
  shows "(Some CompetitorList,
          relevant_competitors_prompt an ad (gathered (link_outcomes llm scraper srs \<sigma>)))
         \<in> set (llm_calls (snd (finalize_competitors llm scraper state \<sigma>)))"
proof -
  obtain results \<sigma>1 where loop: "for_search_results llm scraper srs [] \<sigma> = (results, \<sigma>1)"
    by (cases "for_search_results llm scraper srs [] \<sigma>")
  from for_search_results_gathers [of llm scraper srs "[]" \<sigma>] loop
  have results: "results = gathered (link_outcomes llm scraper srs \<sigma>)" by simp
  from assms loop show ?thesis
    unfolding results [symmetric]
    by (simp add: finalize_competitors_def io_bind_def io_lift_def getitem_def
        with_structured_output_def invoke_def io_return_def split: prod.splits sum.splits)
qed

text \<open>
  Claim C5. The loop of \<open>finalize_competitors\<close> recovers from a failing link by
  catching and printing: it tries every search result; what it returns is what
  it started with followed by the competitors of every link that succeeded, in
  order, whatever the other links raised; it prints one error line for each
  link that raised; and no exception leaves the loop (its result is a list, not
  an exception), so that with the state's keys present the node goes on to ask
  the model to rank all the competitors gathered.
\<close>

theorem finalize_competitors_recovers_per_link:
  "length (link_outcomes llm scraper srs \<sigma>) = length srs \<and>
   fst (for_search_results llm scraper srs results \<sigma>) =
     results @ gathered (link_outcomes llm scraper srs \<sigma>) \<and>
   stdout (snd (for_search_results llm scraper srs results \<sigma>)) =
     stdout \<sigma> @ error_lines srs (link_outcomes llm scraper srs \<sigma>) \<and>
   (search_results state = Some srs \<and> appName state = Some an \<and> appDescription state = Some ad
      \<longrightarrow> (Some CompetitorList,
           relevant_competitors_prompt an ad (gathered (link_outcomes llm scraper srs \<sigma>)))
          \<in> set (llm_calls (snd (finalize_competitors llm scraper state \<sigma>))))"
  using length_link_outcomes [of llm scraper srs \<sigma>]
    for_search_results_gathers [of llm scraper srs results \<sigma>]
    for_search_results_prints [of llm scraper srs results \<sigma>]
    finalize_competitors_ranks_gathered [of state srs an ad llm scraper \<sigma>]
  by blast

text \<open>
  The theorem at three links of which the second cannot be scraped: the
  competitors of the first and the third are gathered and ranked, and one line
  is printed.
\<close>

theorem finalize_competitors_recovers_per_link_witness:
  "(let llm = (\<lambda>w s q. (Inr (case q of page_competitors_prompt c \<Rightarrow> CompetitorList_value [c] | _ \<Rightarrow> CompetitorList_value []), w));
        scraper = (\<lambda>w u. (if u = ''bad'' then Inl (Exception ''timeout'') else Inr \<lparr>page_content = u\<rparr>, w));
        srs = [\<lparr>link = ''a''\<rparr>, \<lparr>link = ''bad''\<rparr>, \<lparr>link = ''b''\<rparr>];
        state = (empty_dict\<lparr>search_results := Some srs, appName := Some ''App'',
                   appDescription := Some ''an app''\<rparr> :: (int, string, string) MarketingPlanState);
        \<sigma> = (\<lparr>external = (), llm_calls = [], stdout = []\<rparr> :: (unit, (int, string, string) prompt) world)
    in search_results state = Some srs \<and> appName state = Some ''App'' \<and>
       appDescription state = Some ''an app'' \<and>
       link_outcomes llm scraper srs \<sigma> = [Inr [''a''], Inl (Exception ''timeout''), Inr [''b'']] \<and>
       fst (for_search_results llm scraper srs [] \<sigma>) = [''a'', ''b''] \<and>
       stdout (snd (for_search_results llm scraper srs [] \<sigma>)) =
         [''Error processing bad: timeout''] \<and>
       (Some CompetitorList, relevant_competitors_prompt ''App'' ''an app'' [''a'', ''b''])
         \<in> set (llm_calls (snd (finalize_competitors llm scraper state \<sigma>))))"
  using finalize_competitors_recovers_per_link
    [where llm = "(\<lambda>w s q. (Inr (case q of page_competitors_prompt c \<Rightarrow> CompetitorList_value [c] | _ \<Rightarrow> CompetitorList_value []), w))"
       and scraper = "(\<lambda>w u. (if u = ''bad'' then Inl (Exception ''timeout'') else Inr \<lparr>page_content = u\<rparr>, w))"
       and srs = "[\<lparr>link = ''a''\<rparr>, \<lparr>link = ''bad''\<rparr>, \<lparr>link = ''b''\<rparr>]"
       and \<sigma> = "(\<lparr>external = (), llm_calls = [], stdout = []\<rparr> :: (unit, (int, string, string) prompt) world)"
       and results = "[]"
       and state = "(empty_dict\<lparr>search_results := Some [\<lparr>link = ''a''\<rparr>, \<lparr>link = ''bad''\<rparr>, \<lparr>link = ''b''\<rparr>], appName := Some ''App'', appDescription := Some ''an app''\<rparr>)"
       and an = "''App''" and ad = "''an app''"]
  by (simp add: Let_def process_link_def io_bind_def scrape_web_def with_structured_output_def
      invoke_def io_lift_def gathered_def error_lines_def print_def empty_dict_def)

subsection \<open>What the nodes ask of the model\<close>

lemma attr_personas_Inr: "attr_personas v = Inr ps \<longleftrightarrow> v = PersonaList_value ps"
  by (cases v) auto

lemma attr_competitors_Inr: "attr_competitors v = Inr cs \<longleftrightarrow> v = CompetitorList_value cs"
  by (cases v) auto

lemma attr_strategies_Inr: "attr_strategies v = Inr xs \<longleftrightarrow> v = MarketingStrategiesList_value xs"
  by (cases v) auto

lemma attr_keywords_Inr: "attr_keywords v = Inr xs \<longleftrightarrow> v = KeywordList_value xs"
  by (cases v) auto

lemma attr_subreddits_Inr: "attr_subreddits v = Inr xs \<longleftrightarrow> v = SubredditList_value xs"
  by (cases v) auto

lemmas node_defs =
  io_bind_def io_lift_def io_return_def getitem_def with_structured_output_def invoke_def

lemma create_personas_requests:
  "set (requested_schemas (create_personas llm py_int state) \<sigma>) \<subseteq> {Some PersonaList}"
  by (auto simp: requested_schemas_def create_personas_def node_defs
      split: option.splits sum.splits prod.splits)

lemma create_personas_returns_personas:
  "fst (create_personas llm py_int state \<sigma>) = Inr u \<Longrightarrow>
   \<exists>w q ps n. fst (llm w (Some PersonaList) q) = Inr (PersonaList_value ps) \<and>
     u = empty_dict\<lparr>personas := Some (slice_upto ps n)\<rparr>"
  by (auto simp: create_personas_def node_defs attr_personas_Inr
      split: option.splits sum.splits prod.splits)
    (metis fst_conv)

lemma extract_keywords_requests:
  "set (requested_schemas (extract_keywords llm state) \<sigma>) \<subseteq> {Some KeywordList}"
  by (auto simp: requested_schemas_def extract_keywords_def node_defs
      split: option.splits sum.splits prod.splits)

lemma extract_keywords_returns_keywords:
  "fst (extract_keywords llm state \<sigma>) = Inr u \<Longrightarrow>
   \<exists>w q ks. fst (llm w (Some KeywordList) q) = Inr (KeywordList_value ks) \<and>
     u = empty_dict\<lparr>keywords' := Some ks\<rparr>"
  by (auto simp: extract_keywords_def node_defs attr_keywords_Inr
      split: option.splits sum.splits prod.splits)
    (metis fst_conv)

lemma get_marketing_suggestions_requests:
  "set (requested_schemas (get_marketing_suggestions llm state) \<sigma>) \<subseteq>
     {Some MarketingStrategiesList}"
  by (auto simp: requested_schemas_def get_marketing_suggestions_def node_defs
      split: option.splits sum.splits prod.splits)

lemma get_marketing_suggestions_returns_strategies:
  "fst (get_marketing_suggestions llm state \<sigma>) = Inr u \<Longrightarrow>
   \<exists>w q xs. fst (llm w (Some MarketingStrategiesList) q) = Inr (MarketingStrategiesList_value xs) \<and>
     u = empty_dict\<lparr>marketing_suggestions := Some xs\<rparr>"
  by (auto simp: get_marketing_suggestions_def node_defs attr_strategies_Inr
      split: option.splits sum.splits prod.splits)
    (metis fst_conv)

lemma get_subreddits_requests:
  "set (requested_schemas (get_subreddits llm state) \<sigma>) \<subseteq> {Some SubredditList}"
  by (auto simp: requested_schemas_def get_subreddits_def node_defs
      split: option.splits sum.splits prod.splits)

lemma get_subreddits_returns_subreddits:
  "fst (get_subreddits llm state \<sigma>) = Inr u \<Longrightarrow>
   \<exists>w q xs. fst (llm w (Some SubredditList) q) = Inr (SubredditList_value xs) \<and>
     u = empty_dict\<lparr>subreddits := Some xs\<rparr>"
  by (auto simp: get_subreddits_def node_defs attr_subreddits_Inr
      split: option.splits sum.splits prod.splits)
    (metis fst_conv)

lemma process_link_calls:
  "\<exists>cs. llm_calls (snd (process_link llm scraper sr \<sigma>)) = llm_calls \<sigma> @ cs \<and>
        set (map fst cs) \<subseteq> {Some CompetitorList}"
  by (auto simp: process_link_def scrape_web_def node_defs split: sum.splits prod.splits)

lemma for_search_results_calls:
  "\<exists>cs. llm_calls (snd (for_search_results llm scraper srs results \<sigma>)) = llm_calls \<sigma> @ cs \<and>
        set (map fst cs) \<subseteq> {Some CompetitorList}"
proof (induction srs arbitrary: results \<sigma>)
  case Nil
  show ?case by simp
next
  case (Cons sr srs)
  obtain r \<sigma>' where step: "process_link llm scraper sr \<sigma> = (r, \<sigma>')"
    by (cases "process_link llm scraper sr \<sigma>")
  from process_link_calls [of llm scraper sr \<sigma>] step
  obtain cs where cs: "llm_calls \<sigma>' = llm_calls \<sigma> @ cs" "set (map fst cs) \<subseteq> {Some CompetitorList}"
    by auto
  show ?case
  proof (cases r)
    case (Inl e)
    let ?\<sigma> = "print (''Error processing '' @ link sr @ '': '' @ str_exception e) \<sigma>'"
    from Cons.IH [of results ?\<sigma>]
    obtain ds where ds: "llm_calls (snd (for_search_results llm scraper srs results ?\<sigma>)) =
        llm_calls ?\<sigma> @ ds" "set (map fst ds) \<subseteq> {Some CompetitorList}"
      by auto
    from ds cs have "llm_calls (snd (for_search_results llm scraper (sr # srs) results \<sigma>)) =
        llm_calls \<sigma> @ (cs @ ds) \<and> set (map fst (cs @ ds)) \<subseteq> {Some CompetitorList}"
      using step Inl by (simp add: print_def)
    then show ?thesis by blast
  next
    case (Inr xs)
    from Cons.IH [of "results @ xs" \<sigma>']
    obtain ds where ds: "llm_calls (snd (for_search_results llm scraper srs (results @ xs) \<sigma>')) =
        llm_calls \<sigma>' @ ds" "set (map fst ds) \<subseteq> {Some CompetitorList}"
      by auto
    from ds cs have "llm_calls (snd (for_search_results llm scraper (sr # srs) results \<sigma>)) =
        llm_calls \<sigma> @ (cs @ ds) \<and> set (map fst (cs @ ds)) \<subseteq> {Some CompetitorList}"
      using step Inr by simp
    then show ?thesis by blast
  qed
qed

lemma finalize_competitors_requests:
  "set (requested_schemas (finalize_competitors llm scraper state) \<sigma>) \<subseteq> {Some CompetitorList}"
proof (cases "search_results state")
  case None
  then show ?thesis
    by (simp add: requested_schemas_def finalize_competitors_def node_defs)
next
  case (Some srs)
  obtain results \<sigma>1 where loop: "for_search_results llm scraper srs [] \<sigma> = (results, \<sigma>1)"
    by (cases "for_search_results llm scraper srs [] \<sigma>")
  from for_search_results_calls [of llm scraper srs "[]" \<sigma>] loop
  obtain cs where cs: "llm_calls \<sigma>1 = llm_calls \<sigma> @ cs" "set (map fst cs) \<subseteq> {Some CompetitorList}"
    by auto
  from Some loop cs show ?thesis
    by (auto simp: requested_schemas_def finalize_competitors_def node_defs
        split: option.splits sum.splits prod.splits) force+
qed

lemma finalize_competitors_returns_competitors:
  "fst (finalize_competitors llm scraper state \<sigma>) = Inr u \<Longrightarrow>
   \<exists>w q cs. fst (llm w (Some CompetitorList) q) = Inr (CompetitorList_value cs) \<and>
     u = empty_dict\<lparr>competitors := Some cs\<rparr>"
  by (auto simp: finalize_competitors_def node_defs attr_competitors_Inr
      split: option.splits sum.splits prod.splits)
    (metis fst_conv)

text \<open>
  Claim C7. Every request a marketing node sends to the model names the schema
  declared for that node: \<open>PersonaList\<close> for \<open>create_personas\<close>, \<open>KeywordList\<close>
  for \<open>extract_keywords\<close>, \<open>CompetitorList\<close> for \<open>finalize_competitors\<close> (in its
  loop and after it), \<open>MarketingStrategiesList\<close> for
  \<open>get_marketing_suggestions\<close>, \<open>SubredditList\<close> for \<open>get_subreddits\<close>; and what a
  node returns is a field of a value of that type which the model gave in answer
  to such a request. Of the vacation house tasks, the four that produce
  structured data declare an \<open>output_json_schema\<close>, \<open>CandidateCities\<close> or
  \<open>HomeMatches\<close>; the summary, which is prose, declares none.
\<close>

theorem model_requests_name_a_schema:
  "set (requested_schemas (create_personas llm py_int state) \<sigma>) \<subseteq> {Some PersonaList} \<and>
   set (requested_schemas (extract_keywords llm state) \<sigma>) \<subseteq> {Some KeywordList} \<and>
   set (requested_schemas (finalize_competitors llm scraper state) \<sigma>) \<subseteq> {Some CompetitorList} \<and>
   set (requested_schemas (get_marketing_suggestions llm state) \<sigma>) \<subseteq>
     {Some MarketingStrategiesList} \<and>
   set (requested_schemas (get_subreddits llm state) \<sigma>) \<subseteq> {Some SubredditList} \<and>
   (fst (create_personas llm py_int state \<sigma>) = Inr u1 \<longrightarrow>
      (\<exists>w q ps n. fst (llm w (Some PersonaList) q) = Inr (PersonaList_value ps) \<and>
         u1 = empty_dict\<lparr>personas := Some (slice_upto ps n)\<rparr>)) \<and>
   (fst (extract_keywords llm state \<sigma>) = Inr u2 \<longrightarrow>
      (\<exists>w q ks. fst (llm w (Some KeywordList) q) = Inr (KeywordList_value ks) \<and>
         u2 = empty_dict\<lparr>keywords' := Some ks\<rparr>)) \<and>
   (fst (finalize_competitors llm scraper state \<sigma>) = Inr u3 \<longrightarrow>
      (\<exists>w q cs. fst (llm w (Some CompetitorList) q) = Inr (CompetitorList_value cs) \<and>
         u3 = empty_dict\<lparr>competitors := Some cs\<rparr>)) \<and>
   (fst (get_marketing_suggestions llm state \<sigma>) = Inr u4 \<longrightarrow>
      (\<exists>w q xs. fst (llm w (Some MarketingStrategiesList) q) =
           Inr (MarketingStrategiesList_value xs) \<and>
         u4 = empty_dict\<lparr>marketing_suggestions := Some xs\<rparr>)) \<and>
   (fst (get_subreddits llm state \<sigma>) = Inr u5 \<longrightarrow>
      (\<exists>w q xs. fst (llm w (Some SubredditList) q) = Inr (SubredditList_value xs) \<and>
         u5 = empty_dict\<lparr>subreddits := Some xs\<rparr>)) \<and>
   map output_json_schema (create_tasks query) =
     [Some CandidateCities, Some HomeMatches, Some HomeMatches, Some HomeMatches, None]"
proof -
  have "map output_json_schema (create_tasks query) =
     [Some CandidateCities, Some HomeMatches, Some HomeMatches, Some HomeMatches, None]"
    by (simp add: create_tasks_unfolded)
  then show ?thesis
    using create_personas_requests [of llm py_int state \<sigma>]
      extract_keywords_requests [of llm state \<sigma>]
      finalize_competitors_requests [of llm scraper state \<sigma>]
      get_marketing_suggestions_requests [of llm state \<sigma>]
      get_subreddits_requests [of llm state \<sigma>]
      create_personas_returns_personas [of llm py_int state \<sigma> u1]
      extract_keywords_returns_keywords [of llm state \<sigma> u2]
      finalize_competitors_returns_competitors [of llm scraper state \<sigma> u3]
      get_marketing_suggestions_returns_strategies [of llm state \<sigma> u4]
      get_subreddits_returns_subreddits [of llm state \<sigma> u5]
    by blast
qed

text \<open>
  The theorem at a model that answers each schema with one fixed value, a state
  with every key and one search result: every node returns, and its requests
  are as stated.
\<close>

theorem model_requests_name_a_schema_witness:
  "(let llm = (\<lambda>w s q. (Inr (case s of Some PersonaList \<Rightarrow> PersonaList_value [''Ann'', ''Bob''] | Some KeywordList \<Rightarrow> KeywordList_value [''todo app''] | Some CompetitorList \<Rightarrow> CompetitorList_value [''Rival''] | Some MarketingStrategiesList \<Rightarrow> MarketingStrategiesList_value [''blog''] | Some SubredditList \<Rightarrow> SubredditList_value [''r/apps''] | _ \<Rightarrow> Message ''text''), w));
        scraper = (\<lambda>w u. (Inr \<lparr>page_content = u\<rparr>, w));
        state = (empty_dict\<lparr>appName := Some ''App'', appDescription := Some ''an app'', keyfeatures := Some [''fast''], value_proposition := Some ''saves time'', max_personas := Some (1::int), personas := Some [''Ann''], search_results := Some [\<lparr>link = ''a''\<rparr>], competitors := Some [''Rival'']\<rparr>);
        \<sigma> = (\<lparr>external = (), llm_calls = [], stdout = []\<rparr> :: (unit, (int, string, string) prompt) world)
    in fst (create_personas llm Inr state \<sigma>) = Inr (empty_dict\<lparr>personas := Some [''Ann'']\<rparr>) \<and>
       requested_schemas (create_personas llm Inr state) \<sigma> = [Some PersonaList] \<and>
       fst (extract_keywords llm state \<sigma>) = Inr (empty_dict\<lparr>keywords' := Some [''todo app'']\<rparr>) \<and>
       requested_schemas (extract_keywords llm state) \<sigma> = [Some KeywordList] \<and>
       fst (finalize_competitors llm scraper state \<sigma>) =
         Inr (empty_dict\<lparr>competitors := Some [''Rival'']\<rparr>) \<and>
       requested_schemas (finalize_competitors llm scraper state) \<sigma> =
         [Some CompetitorList, Some CompetitorList] \<and>
       fst (get_marketing_suggestions llm state \<sigma>) =
         Inr (empty_dict\<lparr>marketing_suggestions := Some [''blog'']\<rparr>) \<and>
       requested_schemas (get_marketing_suggestions llm state) \<sigma> = [Some MarketingStrategiesList] \<and>
       fst (get_subreddits llm state \<sigma>) = Inr (empty_dict\<lparr>subreddits := Some [''r/apps'']\<rparr>) \<and>
       requested_schemas (get_subreddits llm state) \<sigma> = [Some SubredditList])"
  using model_requests_name_a_schema
    [where llm = "(\<lambda>w s q. (Inr (case s of Some PersonaList \<Rightarrow> PersonaList_value [''Ann'', ''Bob''] | Some KeywordList \<Rightarrow> KeywordList_value [''todo app''] | Some CompetitorList \<Rightarrow> CompetitorList_value [''Rival''] | Some MarketingStrategiesList \<Rightarrow> MarketingStrategiesList_value [''blog''] | Some SubredditList \<Rightarrow> SubredditList_value [''r/apps''] | _ \<Rightarrow> Message ''text''), w))"
       and py_int = Inr
       and scraper = "(\<lambda>w u. (Inr \<lparr>page_content = u\<rparr>, w))"
       and state = "(empty_dict\<lparr>appName := Some ''App'', appDescription := Some ''an app'', keyfeatures := Some [''fast''], value_proposition := Some ''saves time'', max_personas := Some (1::int), personas := Some [''Ann''], search_results := Some [\<lparr>link = ''a''\<rparr>], competitors := Some [''Rival'']\<rparr>)"
       and \<sigma> = "(\<lparr>external = (), llm_calls = [], stdout = []\<rparr> :: (unit, (int, string, string) prompt) world)"
       and ?u1.0 = "empty_dict\<lparr>personas := Some [''Ann'']\<rparr>"
       and ?u2.0 = "empty_dict\<lparr>keywords' := Some [''todo app'']\<rparr>"
       and ?u3.0 = "empty_dict\<lparr>competitors := Some [''Rival'']\<rparr>"
       and ?u4.0 = "empty_dict\<lparr>marketing_suggestions := Some [''blog'']\<rparr>"
       and ?u5.0 = "empty_dict\<lparr>subreddits := Some [''r/apps'']\<rparr>"]
  by (simp add: Let_def requested_schemas_def create_personas_def extract_keywords_def
      finalize_competitors_def get_marketing_suggestions_def get_subreddits_def process_link_def
      scrape_web_def node_defs slice_upto_def empty_dict_def)

section \<open>Running the marketing graph\<close>

lemma run_step_marketing:
  "run_step create_marketing_graph act merge [''analyze_site''] s =
     (case act analyze_site_function s of Inl e \<Rightarrow> Inl e | Inr u \<Rightarrow> Inr (merge s u))"
  "run_step create_marketing_graph act merge [''create_personas''] s =
     (case act create_personas_function s of Inl e \<Rightarrow> Inl e | Inr u \<Rightarrow> Inr (merge s u))"
  "run_step create_marketing_graph act merge [''extract_keywords''] s =
     (case act extract_keywords_function s of Inl e \<Rightarrow> Inl e | Inr u \<Rightarrow> Inr (merge s u))"
  "run_step create_marketing_graph act merge [''search_web_for_competitors_by_hint''] s =
     (case act search_web_for_competitors_by_hint_function s of
        Inl e \<Rightarrow> Inl e | Inr u \<Rightarrow> Inr (merge s u))"
  "run_step create_marketing_graph act merge [''finalize_competitors''] s =
     (case act finalize_competitors_function s of Inl e \<Rightarrow> Inl e | Inr u \<Rightarrow> Inr (merge s u))"
  "run_step create_marketing_graph act merge [''get_marketing_suggestions'', ''get_subreddits''] s =
     (case act get_marketing_suggestions_function s of
        Inl e \<Rightarrow> Inl e
      | Inr u \<Rightarrow>
          (case act get_subreddits_function s of
             Inl e \<Rightarrow> Inl e
           | Inr v \<Rightarrow> Inr (merge (merge s u) v)))"
  "run_step create_marketing_graph act merge [''__END__''] s =
     (case act end_function s of Inl e \<Rightarrow> Inl e | Inr u \<Rightarrow> Inr (merge s u))"
  by (simp_all add: run_step_def marketing_graph_built List.map_filter_simps split: sum.splits)

lemma marketing_run_from_returns:
  "run_from (Suc (Suc (Suc (Suc (Suc (Suc (Suc k))))))) create_marketing_graph
     (\<lambda>f s. Inr (act f s)) merge [''analyze_site''] s =
   (let s1 = merge s (act analyze_site_function s);
        s2 = merge s1 (act create_personas_function s1);
        s3 = merge s2 (act extract_keywords_function s2);
        s4 = merge s3 (act search_web_for_competitors_by_hint_function s3);
        s5 = merge s4 (act finalize_competitors_function s4);
        s6 = merge (merge s5 (act get_marketing_suggestions_function s5))
               (act get_subreddits_function s5);
        s7 = merge s6 (act end_function s6)
    in Some ([[''analyze_site''], [''create_personas''], [''extract_keywords''],
              [''search_web_for_competitors_by_hint''], [''finalize_competitors''],
              [''get_marketing_suggestions'', ''get_subreddits''], [''__END__'']],
             s7, None))"
  by (simp add: run_step_marketing next_nodes_marketing Let_def)

lemma marketing_run_from_ends:
  "\<exists>visited s' r.
     run_from (Suc (Suc (Suc (Suc (Suc (Suc (Suc k))))))) create_marketing_graph act merge
       [''analyze_site''] s = Some (visited, s', r) \<and>
     prefix visited
       [[''analyze_site''], [''create_personas''], [''extract_keywords''],
        [''search_web_for_competitors_by_hint''], [''finalize_competitors''],
        [''get_marketing_suggestions'', ''get_subreddits''], [''__END__'']] \<and>
     (r = None \<longrightarrow>
        visited =
          [[''analyze_site''], [''create_personas''], [''extract_keywords''],
           [''search_web_for_competitors_by_hint''], [''finalize_competitors''],
           [''get_marketing_suggestions'', ''get_subreddits''], [''__END__'']])"
  by (simp add: run_step_marketing next_nodes_marketing split: sum.splits)

lemma marketing_run_graph_unrolled:
  "run_graph create_marketing_graph act merge s =
     run_from (Suc (Suc (Suc (Suc (Suc (Suc (Suc 18))))))) create_marketing_graph act merge
       [''analyze_site''] s"
  by (simp add: run_graph_def recursion_limit_def marketing_graph_built)

lemma marketing_run_ends:
  "\<exists>visited s' r.
     run_graph create_marketing_graph act merge s = Some (visited, s', r) \<and>
     (r = None \<longrightarrow>
        visited =
          [[''analyze_site''], [''create_personas''], [''extract_keywords''],
           [''search_web_for_competitors_by_hint''], [''finalize_competitors''],
           [''get_marketing_suggestions'', ''get_subreddits''], [''__END__'']])"
  unfolding marketing_run_graph_unrolled
  using marketing_run_from_ends [of 18 act merge s] by blast

lemma marketing_run_returns:
  "run_graph create_marketing_graph (\<lambda>f s. Inr (act f s)) merge s =
   (let s1 = merge s (act analyze_site_function s);
        s2 = merge s1 (act create_personas_function s1);
        s3 = merge s2 (act extract_keywords_function s2);
        s4 = merge s3 (act search_web_for_competitors_by_hint_function s3);
        s5 = merge s4 (act finalize_competitors_function s4);
        s6 = merge (merge s5 (act get_marketing_suggestions_function s5))
               (act get_subreddits_function s5);
        s7 = merge s6 (act end_function s6)
    in Some ([[''analyze_site''], [''create_personas''], [''extract_keywords''],
           [''search_web_for_competitors_by_hint''], [''finalize_competitors''],
           [''get_marketing_suggestions'', ''get_subreddits''], [''__END__'']],
             s7, None))"
  unfolding marketing_run_graph_unrolled by (rule marketing_run_from_returns)

text \<open>
  Claim C3, as amended. The marketing graph has the eight nodes named below,
  the entry point \<open>analyze_site\<close> and the eight declared edges, and nothing
  else chooses the next node. Every run ends within the recursion limit, and a
  run in which no node raises visits \<open>analyze_site\<close>, \<open>create_personas\<close>,
  \<open>extract_keywords\<close>, \<open>search_web_for_competitors_by_hint\<close> and
  \<open>finalize_competitors\<close> in that order, then \<open>get_marketing_suggestions\<close> and
  \<open>get_subreddits\<close> in one step, then \<open>__END__\<close>, whatever the state holds.
  When no node can raise, each node is run on the state left by the step
  before, \<open>get_marketing_suggestions\<close> and \<open>get_subreddits\<close> both on the state
  that \<open>finalize_competitors\<close> left, and every result is merged.
\<close>

theorem marketing_graph_static_sequence:
  "set (map fst (nodes create_marketing_graph)) =
     {''analyze_site'', ''create_personas'', ''extract_keywords'',
      ''search_web_for_competitors_by_hint'', ''finalize_competitors'',
      ''get_marketing_suggestions'', ''get_subreddits'', ''__END__''} \<and>
   entry_point create_marketing_graph = Some ''analyze_site'' \<and>
   edges create_marketing_graph =
     [(''analyze_site'', ''create_personas''),
      (''create_personas'', ''extract_keywords''),
      (''extract_keywords'', ''search_web_for_competitors_by_hint''),
      (''search_web_for_competitors_by_hint'', ''finalize_competitors''),
      (''finalize_competitors'', ''get_marketing_suggestions''),
      (''finalize_competitors'', ''get_subreddits''),
      (''get_subreddits'', ''__END__''),
      (''get_marketing_suggestions'', ''__END__'')] \<and>
   (\<exists>visited s' r.
      run_graph create_marketing_graph act merge s = Some (visited, s', r) \<and>
      (r = None \<longrightarrow>
         visited =
           [[''analyze_site''], [''create_personas''], [''extract_keywords''],
           [''search_web_for_competitors_by_hint''], [''finalize_competitors''],
           [''get_marketing_suggestions'', ''get_subreddits''], [''__END__'']])) \<and>
   run_graph create_marketing_graph (\<lambda>f s. Inr (act' f s)) merge' s0 =
     (let s1 = merge' s0 (act' analyze_site_function s0);
          s2 = merge' s1 (act' create_personas_function s1);
          s3 = merge' s2 (act' extract_keywords_function s2);
          s4 = merge' s3 (act' search_web_for_competitors_by_hint_function s3);
          s5 = merge' s4 (act' finalize_competitors_function s4);
          s6 = merge' (merge' s5 (act' get_marketing_suggestions_function s5))
                 (act' get_subreddits_function s5);
          s7 = merge' s6 (act' end_function s6)
      in Some ([[''analyze_site''], [''create_personas''], [''extract_keywords''],
           [''search_web_for_competitors_by_hint''], [''finalize_competitors''],
           [''get_marketing_suggestions'', ''get_subreddits''], [''__END__'']],
               s7, None))"
proof -
  have "set (map fst (nodes create_marketing_graph)) =
     {''analyze_site'', ''create_personas'', ''extract_keywords'',
      ''search_web_for_competitors_by_hint'', ''finalize_competitors'',
      ''get_marketing_suggestions'', ''get_subreddits'', ''__END__''}"
    by (simp add: marketing_graph_built)
  moreover have "entry_point create_marketing_graph = Some ''analyze_site''"
    by (simp add: marketing_graph_built)
  moreover have "edges create_marketing_graph =
     [(''analyze_site'', ''create_personas''),
      (''create_personas'', ''extract_keywords''),
      (''extract_keywords'', ''search_web_for_competitors_by_hint''),
      (''search_web_for_competitors_by_hint'', ''finalize_competitors''),
      (''finalize_competitors'', ''get_marketing_suggestions''),
      (''finalize_competitors'', ''get_subreddits''),
      (''get_subreddits'', ''__END__''),
      (''get_marketing_suggestions'', ''__END__'')]"
    by (simp add: marketing_graph_built)
  ultimately show ?thesis
    using marketing_run_ends [of act merge s] marketing_run_returns [of act' merge' s0]
    by blast
qed

text \<open>The theorem at nodes that return nothing and a merge that keeps the state.\<close>

theorem marketing_graph_static_sequence_witness:
  "run_graph create_marketing_graph (\<lambda>f s. Inr ()) (\<lambda>s u. s) () =
     Some ([[''analyze_site''], [''create_personas''], [''extract_keywords''],
           [''search_web_for_competitors_by_hint''], [''finalize_competitors''],
           [''get_marketing_suggestions'', ''get_subreddits''], [''__END__'']],
           (), None)"
  using marketing_graph_static_sequence
    [where act = "\<lambda>f s. Inr ()" and merge = "\<lambda>s u. s" and s = "()"
       and act' = "\<lambda>f s. ()" and merge' = "\<lambda>s u. s" and ?s0.0 = "()"]
  by (simp add: Let_def)

text \<open>
  The sequence as the claim states it, for every execution and every state,
  fails when a node raises: on a state without \<open>search_results\<close> the lookup
  \<open>state["search_results"]\<close> of \<open>finalize_competitors\<close> raises \<open>KeyError\<close>, and
  the run stops after five steps, before \<open>get_marketing_suggestions\<close>,
  \<open>get_subreddits\<close> and \<open>__END__\<close>.
\<close>

theorem marketing_run_stops_at_raising_node_counterexample:
  "run_graph create_marketing_graph
     (\<lambda>f s. case f of
          finalize_competitors_function \<Rightarrow>
            fst (finalize_competitors (\<lambda>w sch q. (Inr (Message []), w))
                   (\<lambda>w u. (Inr \<lparr>page_content = u\<rparr>, w)) s
                   \<lparr>external = (), llm_calls = [], stdout = []\<rparr>)
        | _ \<Rightarrow> Inr empty_dict)
     (\<lambda>s u. s) (empty_dict :: (int, string, string) MarketingPlanState) =
   Some ([[''analyze_site''], [''create_personas''], [''extract_keywords''],
          [''search_web_for_competitors_by_hint''], [''finalize_competitors'']],
         empty_dict, Some (KeyError ''search_results''))"
  (is "run_graph _ ?act ?merge ?s = ?stopped")
proof -
  have "run_from (Suc (Suc (Suc (Suc (Suc (Suc (Suc k))))))) create_marketing_graph
          ?act ?merge [''analyze_site''] ?s = ?stopped" for k
    by (simp add: run_step_marketing next_nodes_marketing finalize_competitors_def empty_dict_def)
  from this [of 18] show ?thesis
    unfolding marketing_run_graph_unrolled .
qed

end
